theory Spec2Isabelle
  imports Main "HOL-Library.Word" "HOL-Library.AList"
begin

unbundle bit_operations_syntax

section \<open>The keystore of pal-mcp (packages/core/src/keystore.ts)\<close>

text \<open>
  The keystore keeps a JSON document \<^verbatim>\<open>~/.pal/keystore.json\<close> with one AES-256-GCM record
  per secret identifier, and a 32-byte master key that lives in the OS vault (keytar) or in
  the file \<^verbatim>\<open>~/.pal/.master\<close>. Every exported operation reads the document from disk
  and, when it mutates, rewrites it in full.

  The model is a state-passing embedding. Everything outside the module is a field of the
  record \<open>world\<close>: the file system below the keystore directory, the vault, the module
  variable \<^verbatim>\<open>keytar\<close>, the random generator, and a trace of the effects performed.
  An operation returns an \<open>outcome\<close> (a value or a thrown error) together with the world
  it leaves behind, so the effects of a call that throws are kept.

  Of the file-system calls, writing the document can fail (\<open>doc_write_fails\<close>): that is the
  one failure the module catches in one place and not in another. The other calls are taken
  to succeed; their errors would leave every operation uncaught. Outside the model are also
  file modes, a parseable document that is not shaped like \<^verbatim>\<open>KeystoreData\<close>, and
  interleaving of concurrent callers. A JavaScript string is a \<open>string\<close>; the functions of
  Node that look inside one (UTF-8 encoding and decoding, joining paths) are parameters.
\<close>

subsection \<open>Bytes and hex strings\<close>

type_synonym byte = "8 word"

definition hex_digit :: "nat \<Rightarrow> char" where
  "hex_digit n = ''0123456789abcdef'' ! n"

definition hex_value :: "char \<Rightarrow> nat option" where
  "hex_value c =
     (let n = (of_char c :: nat) in
      if 48 \<le> n \<and> n \<le> 57 then Some (n - 48)
      else if 97 \<le> n \<and> n \<le> 102 then Some (n - 87)
      else if 65 \<le> n \<and> n \<le> 70 then Some (n - 55)
      else None)"

text \<open>\<^verbatim>\<open>buf.toString('hex')\<close>: two lower-case digits per byte.\<close>

definition to_hex :: "byte list \<Rightarrow> string" where
  "to_hex bs = concat (map (\<lambda>b. [hex_digit (unat b div 16), hex_digit (unat b mod 16)]) bs)"

text \<open>
  \<^verbatim>\<open>Buffer.from(s, 'hex')\<close>: decodes pairs of digits of either case, stops at the first
  pair that is not hexadecimal, and drops a trailing single character.
\<close>

fun from_hex :: "string \<Rightarrow> byte list" where
  "from_hex (a # b # rest) =
     (case (hex_value a, hex_value b) of
        (Some x, Some y) \<Rightarrow> of_nat (16 * x + y) # from_hex rest
      | _ \<Rightarrow> [])"
| "from_hex _ = []"

subsection \<open>The persisted document (types.ts)\<close>

record KeystoreEntry =
  iv :: string
  authTag :: string
  ciphertext :: string

text \<open>
  \<^verbatim>\<open>secrets: Record<string, KeystoreEntry>\<close> is a plain JavaScript object. Its own
  properties are an association list in creation order; its prototype is
  \<^verbatim>\<open>Object.prototype\<close>, whose property names are listed in \<open>object_prototype_names\<close>.
\<close>

type_synonym js_object = "(string \<times> KeystoreEntry) list"

record KeystoreData =
  version :: nat
  masterKeyInKeychain :: bool
  secrets :: js_object

definition object_prototype_names :: "string list" where
  "object_prototype_names =
     [''constructor'', ''__defineGetter__'', ''__defineSetter__'', ''hasOwnProperty'',
      ''__lookupGetter__'', ''__lookupSetter__'', ''isPrototypeOf'', ''propertyIsEnumerable'',
      ''toString'', ''valueOf'', ''__proto__'', ''toLocaleString'']"

text \<open>
  The value of \<^verbatim>\<open>obj[key]\<close>: an own entry, a value inherited from
  \<^verbatim>\<open>Object.prototype\<close> (a function, or the prototype itself for \<^verbatim>\<open>__proto__\<close>; truthy,
  with no \<^verbatim>\<open>iv\<close>, \<^verbatim>\<open>authTag\<close> or \<^verbatim>\<open>ciphertext\<close>), or \<^verbatim>\<open>undefined\<close>.
\<close>

datatype js_value = Undefined | Entry KeystoreEntry | Inherited

definition get_prop :: "js_object \<Rightarrow> string \<Rightarrow> js_value" where
  "get_prop obj k =
     (case map_of obj k of
        Some e \<Rightarrow> Entry e
      | None \<Rightarrow> if k \<in> set object_prototype_names then Inherited else Undefined)"

definition truthy :: "js_value \<Rightarrow> bool" where
  "truthy v = (v \<noteq> Undefined)"

text \<open>
  \<^verbatim>\<open>obj[key] = e\<close>: an own property is replaced in place; otherwise the assignment
  reaches the prototype chain, where \<^verbatim>\<open>__proto__\<close> is an accessor whose setter changes the
  prototype of \<^verbatim>\<open>obj\<close> and creates no own property; every other name is appended as a new
  own property.
\<close>

definition set_prop :: "js_object \<Rightarrow> string \<Rightarrow> KeystoreEntry \<Rightarrow> js_object" where
  "set_prop obj k e =
     (if k \<in> fst ` set obj then AList.update k e obj
      else if k = ''__proto__'' then obj
      else AList.update k e obj)"

text \<open>\<^verbatim>\<open>delete obj[key]\<close> removes an own property only.\<close>

definition delete_prop :: "js_object \<Rightarrow> string \<Rightarrow> js_object" where
  "delete_prop obj k = AList.delete k obj"

text \<open>\<^verbatim>\<open>key in obj\<close> also sees inherited properties.\<close>

definition has_prop :: "js_object \<Rightarrow> string \<Rightarrow> bool" where
  "has_prop obj k = (k \<in> fst ` set obj \<or> k \<in> set object_prototype_names)"

text \<open>
  Own properties are enumerated (\<^verbatim>\<open>Object.keys\<close>, \<^verbatim>\<open>JSON.stringify\<close>) with the array
  indices first, in ascending order, then the other names in creation order. An array index
  is the canonical decimal form of a number below \<open>2\<^sup>3\<^sup>2 - 1\<close>.
\<close>

definition dec_value :: "string \<Rightarrow> nat" where
  "dec_value s = foldl (\<lambda>n c. 10 * n + (of_char c - 48)) 0 s"

definition is_array_index :: "string \<Rightarrow> bool" where
  "is_array_index s =
     (s \<noteq> [] \<and> list_all (\<lambda>c. 48 \<le> (of_char c :: nat) \<and> (of_char c :: nat) \<le> 57) s
      \<and> (if take 1 s = ''0'' then s = ''0'' else True) \<and> dec_value s < 4294967295)"

definition own_properties :: "js_object \<Rightarrow> js_object" where
  "own_properties obj =
     sort_key (\<lambda>p. dec_value (fst p)) (filter (\<lambda>p. is_array_index (fst p)) obj)
     @ filter (\<lambda>p. \<not> is_array_index (fst p)) obj"

definition object_keys :: "js_object \<Rightarrow> string list" where
  "object_keys obj = map fst (own_properties obj)"

text \<open>
  The content of \<^verbatim>\<open>keystore.json\<close>: text that \<^verbatim>\<open>JSON.parse\<close> rejects, or the document
  it parses to. \<^verbatim>\<open>JSON.stringify\<close> writes the own properties in enumeration order.
\<close>

datatype file_content = Malformed string | Document KeystoreData

definition json_stringify :: "KeystoreData \<Rightarrow> file_content" where
  "json_stringify d = Document (d\<lparr>secrets := own_properties (secrets d)\<rparr>)"

subsection \<open>The world outside the module\<close>

datatype error =
  SyntaxError | VaultError | WriteError | InvalidKeyLength | InvalidIV | AuthFailed | TypeError

datatype 'a outcome = Return 'a | Throw error

datatype event =
    Mkdir
  | DocWrite file_content
  | DocWriteFailed
  | KeyFileWrite string
  | VaultRead
  | VaultWrite string
  | VaultWriteFailed
  | RandomBytes nat

fun is_DocWrite :: "event \<Rightarrow> bool" where
  "is_DocWrite (DocWrite c) = True"
| "is_DocWrite e = False"

fun is_KeyFileWrite :: "event \<Rightarrow> bool" where
  "is_KeyFileWrite (KeyFileWrite s) = True"
| "is_KeyFileWrite e = False"

fun is_VaultWrite :: "event \<Rightarrow> bool" where
  "is_VaultWrite (VaultWrite s) = True"
| "is_VaultWrite e = False"

text \<open>
  \<open>keytar_installed\<close>: whether \<^verbatim>\<open>import('keytar')\<close> succeeds; \<open>keytar\<close>: whether the module
  variable of that name is set. \<open>vault\<close> is the password stored under the fixed service and
  account; \<open>vault_get_fails\<close> and \<open>vault_set_fails\<close> say whether \<^verbatim>\<open>getPassword\<close> and
  \<^verbatim>\<open>setPassword\<close> reject, \<open>doc_write_fails\<close> whether \<^verbatim>\<open>fs.writeFileSync\<close> throws on
  \<^verbatim>\<open>keystore.json\<close>; no operation of the module changes them. \<open>path_join\<close> is
  \<^verbatim>\<open>path.join\<close> of this platform. \<^verbatim>\<open>crypto.randomBytes\<close> reads \<open>entropy\<close> from
  \<open>cursor\<close> on. \<open>trace\<close> lists the effects performed so far, oldest first.
\<close>

record world =
  homedir :: string
  path_join :: "string \<Rightarrow> string \<Rightarrow> string"
  dir_exists :: bool
  keystore_file :: "file_content option"
  doc_write_fails :: bool
  master_file :: "string option"
  keytar_installed :: bool
  keytar :: bool
  vault :: "string option"
  vault_get_fails :: bool
  vault_set_fails :: bool
  entropy :: "nat \<Rightarrow> byte"
  cursor :: nat
  trace :: "event list"

definition emit :: "event \<Rightarrow> world \<Rightarrow> world" where
  "emit e w = w\<lparr>trace := trace w @ [e]\<rparr>"

definition KEYSTORE_DIR :: "world \<Rightarrow> string" where
  "KEYSTORE_DIR w = path_join w (homedir w) ''.pal''"

definition KEYSTORE_FILE :: "world \<Rightarrow> string" where
  "KEYSTORE_FILE w = path_join w (KEYSTORE_DIR w) ''keystore.json''"

definition randomBytes :: "nat \<Rightarrow> world \<Rightarrow> byte list \<times> world" where
  "randomBytes n w =
     (map (entropy w) [cursor w ..< cursor w + n],
      emit (RandomBytes n) (w\<lparr>cursor := cursor w + n\<rparr>))"

definition getPassword :: "world \<Rightarrow> string option outcome \<times> world" where
  "getPassword w =
     (if vault_get_fails w then (Throw VaultError, emit VaultRead w)
      else (Return (vault w), emit VaultRead w))"

definition setPassword :: "string \<Rightarrow> world \<Rightarrow> unit outcome \<times> world" where
  "setPassword s w =
     (if vault_set_fails w then (Throw VaultError, emit VaultWriteFailed w)
      else (Return (), emit (VaultWrite s) (w\<lparr>vault := Some s\<rparr>)))"

text \<open>
  AES-256-GCM and the UTF-8 codec come from Node and are parameters of the model:
  \<open>gcm_encrypt\<close> maps key, IV and plaintext to ciphertext and tag, \<open>gcm_decrypt\<close> maps key,
  IV, tag and ciphertext to the plaintext, or to \<open>None\<close> when the tag is not accepted;
  \<open>utf8_encode\<close> is what \<^verbatim>\<open>cipher.update(s, 'utf-8', ...)\<close> makes of a string and
  \<open>utf8_decode\<close> what \<^verbatim>\<open>decipher.update(..., 'utf-8')\<close> makes of bytes (Node encodes an
  unpaired surrogate as U+FFFD and decodes invalid bytes to U+FFFD, so the two are inverse
  only on well-formed strings).
\<close>

record node_api =
  gcm_encrypt :: "byte list \<Rightarrow> byte list \<Rightarrow> byte list \<Rightarrow> byte list \<times> byte list"
  gcm_decrypt :: "byte list \<Rightarrow> byte list \<Rightarrow> byte list \<Rightarrow> byte list \<Rightarrow> byte list option"
  utf8_encode :: "string \<Rightarrow> byte list"
  utf8_decode :: "byte list \<Rightarrow> string"

subsection \<open>The module\<close>

definition loadKeytar :: "world \<Rightarrow> bool \<times> world" where
  "loadKeytar w =
     (if keytar w then (True, w)
      else if keytar_installed w then (True, w\<lparr>keytar := True\<rparr>)
      else (False, w))"

definition ensureKeystoreDir :: "world \<Rightarrow> world" where
  "ensureKeystoreDir w =
     (if \<not> dir_exists w then emit Mkdir (w\<lparr>dir_exists := True\<rparr>) else w)"

definition empty_document :: KeystoreData where
  "empty_document = \<lparr>version = 1, masterKeyInKeychain = False, secrets = []\<rparr>"

definition loadKeystoreData :: "world \<Rightarrow> KeystoreData outcome \<times> world" where
  "loadKeystoreData w =
     (let w1 = ensureKeystoreDir w in
      case keystore_file w1 of
        None \<Rightarrow> (Return empty_document, w1)
      | Some (Malformed raw) \<Rightarrow> (Throw SyntaxError, w1)
      | Some (Document d) \<Rightarrow> (Return d, w1))"

definition saveKeystoreData :: "KeystoreData \<Rightarrow> world \<Rightarrow> unit outcome \<times> world" where
  "saveKeystoreData d w =
     (let w1 = ensureKeystoreDir w in
      if doc_write_fails w1 then (Throw WriteError, emit DocWriteFailed w1)
      else (Return (),
            emit (DocWrite (json_stringify d)) (w1\<lparr>keystore_file := Some (json_stringify d)\<rparr>)))"

text \<open>
  Lines 73 to 82 of \<^verbatim>\<open>getMasterKey\<close>: the key file. Nothing here is inside a
  \<^verbatim>\<open>try\<close>, so a failed write of the document is thrown.
\<close>

definition getMasterKey_file :: "KeystoreData \<Rightarrow> byte list \<Rightarrow> world \<Rightarrow> byte list outcome \<times> world" where
  "getMasterKey_file d newKey w =
     (case master_file w of
        Some content \<Rightarrow> (Return (from_hex content), w)
      | None \<Rightarrow>
          (let w1 = emit (KeyFileWrite (to_hex newKey)) (w\<lparr>master_file := Some (to_hex newKey)\<rparr>)
           in case saveKeystoreData (d\<lparr>masterKeyInKeychain := False\<rparr>) w1 of
                (Return u, w2) \<Rightarrow> (Return newKey, w2)
              | (Throw e, w2) \<Rightarrow> (Throw e, w2)))"

text \<open>
  Lines 59 to 82: a new key, written to the vault or else to the key file. The
  \<^verbatim>\<open>try\<close> of lines 63 to 70 holds \<^verbatim>\<open>setPassword\<close>, the assignment of the flag and
  \<^verbatim>\<open>saveKeystoreData\<close>: an error of either call is caught and execution goes on to the
  key file, in the second case with the flag already set in \<^verbatim>\<open>data\<close>.
\<close>

definition getMasterKey_generate :: "bool \<Rightarrow> KeystoreData \<Rightarrow> world \<Rightarrow> byte list outcome \<times> world" where
  "getMasterKey_generate kt d w =
     (let (newKey, w1) = randomBytes 32 w in
      if kt then
        (case setPassword (to_hex newKey) w1 of
           (Return u, w2) \<Rightarrow>
             (case saveKeystoreData (d\<lparr>masterKeyInKeychain := True\<rparr>) w2 of
                (Return u', w3) \<Rightarrow> (Return newKey, w3)
              | (Throw e, w3) \<Rightarrow>
                  getMasterKey_file (d\<lparr>masterKeyInKeychain := True\<rparr>) newKey w3)
         | (Throw e, w2) \<Rightarrow> getMasterKey_file d newKey w2)
      else getMasterKey_file d newKey w1)"

definition getMasterKey :: "world \<Rightarrow> byte list outcome \<times> world" where
  "getMasterKey w =
     (let (kt, w1) = loadKeytar w in
      case loadKeystoreData w1 of
        (Throw e, w2) \<Rightarrow> (Throw e, w2)
      | (Return d, w2) \<Rightarrow>
          if kt \<and> masterKeyInKeychain d then
            (case getPassword w2 of
               (Throw e, w3) \<Rightarrow> (Throw e, w3)
             | (Return stored, w3) \<Rightarrow>
                 (case stored of
                    Some s \<Rightarrow>
                      if s \<noteq> [] then (Return (from_hex s), w3)
                      else getMasterKey_generate kt d w3
                  | None \<Rightarrow> getMasterKey_generate kt d w3))
          else getMasterKey_generate kt d w2)"

text \<open>
  \<^verbatim>\<open>createCipheriv\<close> and \<^verbatim>\<open>createDecipheriv\<close> reject a key that is not 32 bytes long
  and an empty IV.
\<close>

definition encrypt :: "node_api \<Rightarrow> string \<Rightarrow> byte list \<Rightarrow> world \<Rightarrow> KeystoreEntry outcome \<times> world" where
  "encrypt g plaintext k w =
     (let (nonce, w1) = randomBytes 12 w in
      if length k \<noteq> 32 then (Throw InvalidKeyLength, w1)
      else
        (let (ct, tag) = gcm_encrypt g k nonce (utf8_encode g plaintext) in
         (Return \<lparr>iv = to_hex nonce, authTag = to_hex tag, ciphertext = to_hex ct\<rparr>, w1)))"

definition decrypt :: "node_api \<Rightarrow> js_value \<Rightarrow> byte list \<Rightarrow> string outcome" where
  "decrypt g v k =
     (case v of
        Entry e \<Rightarrow>
          (let nonce = from_hex (iv e); tag = from_hex (authTag e) in
           if length k \<noteq> 32 then Throw InvalidKeyLength
           else if nonce = [] then Throw InvalidIV
           else
             (case gcm_decrypt g k nonce tag (from_hex (ciphertext e)) of
                None \<Rightarrow> Throw AuthFailed
              | Some p \<Rightarrow> Return (utf8_decode g p)))
      | _ \<Rightarrow> Throw TypeError)"

definition storeSecret :: "node_api \<Rightarrow> string \<Rightarrow> string \<Rightarrow> world \<Rightarrow> unit outcome \<times> world" where
  "storeSecret g key val w =
     (case getMasterKey w of
        (Throw e, w1) \<Rightarrow> (Throw e, w1)
      | (Return masterKey, w1) \<Rightarrow>
          (case loadKeystoreData w1 of
             (Throw e, w2) \<Rightarrow> (Throw e, w2)
           | (Return d, w2) \<Rightarrow>
               (case encrypt g val masterKey w2 of
                  (Throw e, w3) \<Rightarrow> (Throw e, w3)
                | (Return entry, w3) \<Rightarrow>
                    saveKeystoreData (d\<lparr>secrets := set_prop (secrets d) key entry\<rparr>) w3)))"

definition getSecret :: "node_api \<Rightarrow> string \<Rightarrow> world \<Rightarrow> string option outcome \<times> world" where
  "getSecret g key w =
     (case loadKeystoreData w of
        (Throw e, w1) \<Rightarrow> (Throw e, w1)
      | (Return d, w1) \<Rightarrow>
          (let entry = get_prop (secrets d) key in
           if \<not> truthy entry then (Return None, w1)
           else
             (case getMasterKey w1 of
                (Throw e, w2) \<Rightarrow> (Throw e, w2)
              | (Return masterKey, w2) \<Rightarrow>
                  (case decrypt g entry masterKey of
                     Return p \<Rightarrow> (Return (Some p), w2)
                   | Throw e \<Rightarrow> (Return None, w2)))))"

definition deleteSecret :: "string \<Rightarrow> world \<Rightarrow> bool outcome \<times> world" where
  "deleteSecret key w =
     (case loadKeystoreData w of
        (Throw e, w1) \<Rightarrow> (Throw e, w1)
      | (Return d, w1) \<Rightarrow>
          if \<not> truthy (get_prop (secrets d) key) then (Return False, w1)
          else
            (case saveKeystoreData (d\<lparr>secrets := delete_prop (secrets d) key\<rparr>) w1 of
               (Return u, w2) \<Rightarrow> (Return True, w2)
             | (Throw e, w2) \<Rightarrow> (Throw e, w2)))"

definition listSecretKeys :: "world \<Rightarrow> string list outcome \<times> world" where
  "listSecretKeys w =
     (case loadKeystoreData w of
        (Throw e, w1) \<Rightarrow> (Throw e, w1)
      | (Return d, w1) \<Rightarrow> (Return (object_keys (secrets d)), w1))"

definition hasSecret :: "string \<Rightarrow> world \<Rightarrow> bool outcome \<times> world" where
  "hasSecret key w =
     (case loadKeystoreData w of
        (Throw e, w1) \<Rightarrow> (Throw e, w1)
      | (Return d, w1) \<Rightarrow> (Return (has_prop (secrets d) key), w1))"

record keystore_info =
  path :: string
  usingKeychain :: bool

definition getKeystoreInfo :: "world \<Rightarrow> keystore_info outcome \<times> world" where
  "getKeystoreInfo w =
     (case loadKeystoreData w of
        (Throw e, w1) \<Rightarrow> (Throw e, w1)
      | (Return d, w1) \<Rightarrow>
          (Return \<lparr>path = KEYSTORE_FILE w1, usingKeychain = masterKeyInKeychain d\<rparr>, w1))"

subsection \<open>Observations and sample worlds\<close>

text \<open>
  A stand-in for the functions of Node, used where a theorem is evaluated on a concrete
  world: the plaintext is masked with a byte derived from key and IV, and the tag is that
  byte followed by a checksum of the ciphertext.
  The stand-in codec takes each character for one byte, which is UTF-8 on ASCII text.
\<close>

definition sample_pad :: "byte list \<Rightarrow> byte list \<Rightarrow> byte" where
  "sample_pad k nonce = sum_list k + sum_list nonce + 90"

definition sample_tag :: "byte list \<Rightarrow> byte list \<Rightarrow> byte list \<Rightarrow> byte list" where
  "sample_tag k nonce ct = [sample_pad k nonce, sum_list ct + of_nat (length ct)]"

definition sample_encode :: "string \<Rightarrow> byte list" where
  "sample_encode s = map (\<lambda>c. of_nat (of_char c)) s"

definition sample_decode :: "byte list \<Rightarrow> string" where
  "sample_decode bs = map (\<lambda>b. char_of (unat b)) bs"

definition sample_aead :: node_api where
  "sample_aead =
     \<lparr>gcm_encrypt = (\<lambda>k nonce pt.
        (map (\<lambda>b. b XOR sample_pad k nonce) pt,
         sample_tag k nonce (map (\<lambda>b. b XOR sample_pad k nonce) pt))),
      gcm_decrypt = (\<lambda>k nonce tag ct.
        if tag = sample_tag k nonce ct then Some (map (\<lambda>b. b XOR sample_pad k nonce) ct)
        else None),
      utf8_encode = sample_encode,
      utf8_decode = sample_decode\<rparr>"

text \<open>\<^verbatim>\<open>path.join\<close> on POSIX, for arguments that need no normalising.\<close>

definition posix_join :: "string \<Rightarrow> string \<Rightarrow> string" where
  "posix_join a b = a @ ''/'' @ b"

text \<open>The effects a call added to the trace, and what the document on disk says.\<close>

definition new_events :: "world \<Rightarrow> world \<Rightarrow> event list" where
  "new_events w w' = drop (length (trace w)) (trace w')"

definition doc_written :: "world \<Rightarrow> world \<Rightarrow> bool" where
  "doc_written w w' = list_ex is_DocWrite (new_events w w')"

definition key_file_written :: "world \<Rightarrow> world \<Rightarrow> bool" where
  "key_file_written w w' = list_ex is_KeyFileWrite (new_events w w')"

definition vault_written :: "world \<Rightarrow> world \<Rightarrow> bool" where
  "vault_written w w' = list_ex is_VaultWrite (new_events w w')"

definition persisted_flag :: "world \<Rightarrow> bool option" where
  "persisted_flag w =
     (case keystore_file w of
        Some (Document d) \<Rightarrow> Some (masterKeyInKeychain d)
      | _ \<Rightarrow> None)"

definition completes :: "'a outcome \<times> world \<Rightarrow> bool" where
  "completes r = (case fst r of Return v \<Rightarrow> True | Throw e \<Rightarrow> False)"

text \<open>A first run on a machine without keytar: nothing on disk, nothing in the vault.\<close>

definition blank_world :: world where
  "blank_world =
     \<lparr>homedir = ''/home/dev'', path_join = posix_join, dir_exists = False,
      keystore_file = None, doc_write_fails = False, master_file = None,
      keytar_installed = False, keytar = False, vault = None,
      vault_get_fails = False, vault_set_fails = False,
      entropy = (\<lambda>i. of_nat i), cursor = 0, trace = []\<rparr>"

text \<open>The same machine with keytar installed and a working vault.\<close>

definition keychain_world :: world where
  "keychain_world = blank_world\<lparr>keytar_installed := True\<rparr>"

text \<open>Some stored record.\<close>

definition sample_entry :: KeystoreEntry where
  "sample_entry = \<lparr>iv = ''000102030405060708090a0b'', authTag = ''5a0b'', ciphertext = ''29316e''\<rparr>"

text \<open>
  A machine whose key was written to the vault earlier (the document says so) and whose
  vault now rejects reads, for instance because it is locked.
\<close>

definition locked_vault_world :: world where
  "locked_vault_world =
     blank_world\<lparr>dir_exists := True, keytar_installed := True,
       keystore_file := Some (Document
         \<lparr>version = 1, masterKeyInKeychain = True, secrets = [(''proj:openai'', sample_entry)]\<rparr>),
       vault := Some (to_hex (replicate 32 7)), vault_get_fails := True\<rparr>"

text \<open>
  A machine with keytar and a working vault that once fell back to the key file, and whose
  document can no longer be written (a read-only \<^verbatim>\<open>keystore.json\<close>).
\<close>

definition readonly_document_world :: world where
  "readonly_document_world =
     blank_world\<lparr>dir_exists := True, keytar_installed := True,
       keystore_file := Some (Document empty_document), doc_write_fails := True,
       master_file := Some (to_hex (replicate 32 7))\<rparr>"

text \<open>A machine whose document is not JSON.\<close>

definition corrupt_world :: world where
  "corrupt_world = blank_world\<lparr>dir_exists := True, keystore_file := Some (Malformed ''{oops'')\<rparr>"

text \<open>
  The first two steps of \<^verbatim>\<open>getMasterKey\<close> (\<^verbatim>\<open>loadKeytar\<close>, then the directory check of
  \<^verbatim>\<open>loadKeystoreData\<close>), the document \<^verbatim>\<open>loadKeystoreData\<close> yields when it does not
  throw, and the event lists that write nothing.
\<close>

definition entered :: "world \<Rightarrow> world" where
  "entered w = ensureKeystoreDir (snd (loadKeytar w))"

definition loaded :: "world \<Rightarrow> KeystoreData" where
  "loaded w = (case keystore_file w of Some (Document d) \<Rightarrow> d | _ \<Rightarrow> empty_document)"

definition quiet :: "event list \<Rightarrow> bool" where
  "quiet es =
     (\<not> list_ex is_DocWrite es \<and> \<not> list_ex is_KeyFileWrite es \<and> \<not> list_ex is_VaultWrite es)"

text \<open>
  What the model asks of the cipher: under a 32-byte key and a non-empty IV, decryption
  of what encryption produced gives the plaintext back.
\<close>

definition aead_correct :: "node_api \<Rightarrow> bool" where
  "aead_correct g =
     (\<forall>k nonce pt. length k = 32 \<and> nonce \<noteq> [] \<longrightarrow>
        gcm_decrypt g k nonce (snd (gcm_encrypt g k nonce pt)) (fst (gcm_encrypt g k nonce pt))
          = Some pt)"

text \<open>
  A world in which key acquisition is settled on the key \<open>K\<close>: either the document says the
  key is in the vault, keytar loads, and the vault answers with a non-empty password that
  decodes to \<open>K\<close>; or the vault is out of the way (keytar does not load or rejects writes,
  and no vault read can succeed or fail) and the key file decodes to \<open>K\<close>.
\<close>

definition key_in_vault :: "byte list \<Rightarrow> world \<Rightarrow> bool" where
  "key_in_vault K w =
     ((keytar w \<or> keytar_installed w) \<and> masterKeyInKeychain (loaded w) \<and> \<not> vault_get_fails w
      \<and> (case vault w of Some s \<Rightarrow> s \<noteq> [] \<and> from_hex s = K | None \<Rightarrow> False))"

definition key_in_file :: "byte list \<Rightarrow> world \<Rightarrow> bool" where
  "key_in_file K w =
     ((if keytar w \<or> keytar_installed w
       then vault_set_fails w
            \<and> (if masterKeyInKeychain (loaded w)
                then \<not> vault_get_fails w \<and> (vault w = None \<or> vault w = Some [])
                else True)
       else True)
      \<and> (case master_file w of Some c \<Rightarrow> from_hex c = K | None \<Rightarrow> False))"

definition established :: "byte list \<Rightarrow> world \<Rightarrow> bool" where
  "established K w =
     (dir_exists w
      \<and> (case keystore_file w of Some (Malformed raw) \<Rightarrow> False | _ \<Rightarrow> True)
      \<and> (key_in_vault K w \<or> key_in_file K w))"

text \<open>The part of the world that key acquisition depends on.\<close>

definition view ::
  "world \<Rightarrow> bool \<times> file_content option \<times> string option \<times> bool \<times> string option \<times> bool \<times> bool \<times> bool" where
  "view w =
     (dir_exists w, keystore_file w, master_file w, keytar w \<or> keytar_installed w, vault w,
      vault_get_fails w, vault_set_fails w, doc_write_fails w)"

text \<open>The world a successful \<^verbatim>\<open>saveKeystoreData\<close> leaves.\<close>

definition saved :: "KeystoreData \<Rightarrow> world \<Rightarrow> world" where
  "saved d w =
     emit (DocWrite (json_stringify d))
       ((ensureKeystoreDir w)\<lparr>keystore_file := Some (json_stringify d)\<rparr>)"

text \<open>The entry \<^verbatim>\<open>encrypt\<close> builds from a key, an IV and a plaintext.\<close>

definition sealed_entry :: "node_api \<Rightarrow> byte list \<Rightarrow> byte list \<Rightarrow> string \<Rightarrow> KeystoreEntry" where
  "sealed_entry g k nonce p =
     \<lparr>iv = to_hex nonce,
      authTag = to_hex (snd (gcm_encrypt g k nonce (utf8_encode g p))),
      ciphertext = to_hex (fst (gcm_encrypt g k nonce (utf8_encode g p)))\<rparr>"







section \<open>Properties\<close>

lemmas ops =
  storeSecret_def getSecret_def deleteSecret_def hasSecret_def listSecretKeys_def
  getKeystoreInfo_def getMasterKey_def getMasterKey_generate_def getMasterKey_file_def
  loadKeystoreData_def saveKeystoreData_def saved_def ensureKeystoreDir_def loadKeytar_def emit_def
  randomBytes_def getPassword_def setPassword_def encrypt_def decrypt_def

lemmas objs =
  get_prop_def set_prop_def delete_prop_def has_prop_def truthy_def object_prototype_names_def
  json_stringify_def own_properties_def object_keys_def empty_document_def

lemmas obs =
  new_events_def doc_written_def key_file_written_def vault_written_def persisted_flag_def
  completes_def

subsection \<open>Hex strings\<close>

lemma hex_value_digit: "n < 16 \<Longrightarrow> hex_value (hex_digit n) = Some n"
proof -
  assume "n < 16"
  then have "n \<in> set [0..<16]" by simp
  then show ?thesis
    unfolding upt_conv_Cons_Cons
    by (simp add: eval_nat_numeral) (auto simp add: hex_digit_def hex_value_def)
qed

lemma from_hex_to_hex: "from_hex (to_hex bs) = bs"
proof (induction bs)
  case Nil
  show ?case by (simp add: to_hex_def)
next
  case (Cons b bs)
  have lt: "unat b div 16 < 16" "unat b mod 16 < 16"
    using unsigned_less [of b, where ?'a = nat] by (simp_all add: less_mult_imp_div_less)
  have "of_nat (16 * (unat b div 16) + unat b mod 16) = b" by simp
  with Cons lt show ?case
    by (simp add: to_hex_def hex_value_digit)
qed

lemma to_hex_eq_Nil: "to_hex bs = [] \<longleftrightarrow> bs = []"
  by (cases bs) (simp_all add: to_hex_def)

subsection \<open>Master-key acquisition\<close>

lemma generate_effects:
  assumes "trace w = trace w0 @ pre" and "quiet pre" and "\<not> doc_write_fails w"
  shows "vault_written w0 (snd (getMasterKey_generate kt d w)) = (kt \<and> \<not> vault_set_fails w)"
    and "key_file_written w0 (snd (getMasterKey_generate kt d w)) =
          (\<not> (kt \<and> \<not> vault_set_fails w) \<and> master_file w = None)"
    and "doc_written w0 (snd (getMasterKey_generate kt d w)) =
          ((kt \<and> \<not> vault_set_fails w) \<or> master_file w = None)"
    and "keystore_file (snd (getMasterKey_generate kt d w)) =
          (if kt \<and> \<not> vault_set_fails w
           then Some (json_stringify (d\<lparr>masterKeyInKeychain := True\<rparr>))
           else if master_file w = None
           then Some (json_stringify (d\<lparr>masterKeyInKeychain := False\<rparr>))
           else keystore_file w)"
  using assms
  by (cases kt; cases "vault_set_fails w"; cases "master_file w"; cases "dir_exists w";
      simp add: getMasterKey_generate_def getMasterKey_file_def saveKeystoreData_def saved_def
        ensureKeystoreDir_def emit_def randomBytes_def setPassword_def obs quiet_def)+

lemma entered_frame:
  "trace (entered w) = trace w @ (if dir_exists w then [] else [Mkdir])"
  "keystore_file (entered w) = keystore_file w"
  "master_file (entered w) = master_file w"
  "vault (entered w) = vault w"
  "vault_set_fails (entered w) = vault_set_fails w"
  "vault_get_fails (entered w) = vault_get_fails w"
  "doc_write_fails (entered w) = doc_write_fails w"
  by (simp_all add: entered_def ensureKeystoreDir_def loadKeytar_def emit_def)

lemma getMasterKey_malformed:
  "keystore_file w = Some (Malformed raw) \<Longrightarrow> getMasterKey w = (Throw SyntaxError, entered w)"
  by (simp add: getMasterKey_def entered_def loadKeytar_def loadKeystoreData_def
      ensureKeystoreDir_def emit_def)

lemma getMasterKey_parsed:
  assumes "\<And>raw. keystore_file w \<noteq> Some (Malformed raw)"
  shows "getMasterKey w =
     (if (keytar w \<or> keytar_installed w) \<and> masterKeyInKeychain (loaded w) then
        if vault_get_fails w then (Throw VaultError, emit VaultRead (entered w))
        else (case vault w of
                None \<Rightarrow> getMasterKey_generate True (loaded w) (emit VaultRead (entered w))
              | Some s \<Rightarrow>
                  if s \<noteq> [] then (Return (from_hex s), emit VaultRead (entered w))
                  else getMasterKey_generate True (loaded w) (emit VaultRead (entered w)))
      else getMasterKey_generate (keytar w \<or> keytar_installed w) (loaded w) (entered w))"
proof (cases "keystore_file w")
  case None
  then show ?thesis
    by (cases "vault w")
      (simp_all add: getMasterKey_def entered_def loaded_def loadKeytar_def loadKeystoreData_def
        ensureKeystoreDir_def emit_def getPassword_def empty_document_def)
next
  case (Some c)
  with assms obtain d where "keystore_file w = Some (Document d)" by (cases c) auto
  then show ?thesis
    by (cases "vault w")
      (simp_all add: getMasterKey_def entered_def loaded_def loadKeytar_def loadKeystoreData_def
        ensureKeystoreDir_def emit_def getPassword_def)
qed

lemma read_hit_effects:
  "new_events w (emit VaultRead (entered w)) =
     (if dir_exists w then [] else [Mkdir]) @ [VaultRead]"
  by (simp add: new_events_def emit_def entered_frame)

text \<open>
  When the document can be written, the flag follows the key writes: the vault was written
  in this call exactly when the document was written in this call and now carries
  \<open>masterKeyInKeychain = true\<close>; if the key file was written, the document was written and
  carries the flag \<open>false\<close>; and if neither was written, the document was not written and
  the file is what it was.
\<close>

lemma flag_follows_key_writes_if_document_writable:
  assumes "completes (getMasterKey w)" and "\<not> doc_write_fails w"
  shows "(vault_written w (snd (getMasterKey w)) =
           (doc_written w (snd (getMasterKey w))
            \<and> persisted_flag (snd (getMasterKey w)) = Some True))
    \<and> (key_file_written w (snd (getMasterKey w)) \<longrightarrow>
           doc_written w (snd (getMasterKey w))
           \<and> persisted_flag (snd (getMasterKey w)) = Some False)
    \<and> (\<not> vault_written w (snd (getMasterKey w))
         \<and> \<not> key_file_written w (snd (getMasterKey w)) \<longrightarrow>
           \<not> doc_written w (snd (getMasterKey w))
           \<and> keystore_file (snd (getMasterKey w)) = keystore_file w)"
proof -
  have ok: "\<And>raw. keystore_file w \<noteq> Some (Malformed raw)"
    using assms(1) by (auto simp add: completes_def getMasterKey_malformed)
  note unf = getMasterKey_parsed [OF ok]
  have q1: "trace (entered w) = trace w @ (if dir_exists w then [] else [Mkdir])"
    and q2: "trace (emit VaultRead (entered w)) =
      trace w @ ((if dir_exists w then [] else [Mkdir]) @ [VaultRead])"
    by (simp_all add: entered_frame emit_def)
  have qq: "quiet (if dir_exists w then [] else [Mkdir])"
    "quiet ((if dir_exists w then [] else [Mkdir]) @ [VaultRead])"
    by (simp_all add: quiet_def)
  have wf: "\<not> doc_write_fails (entered w)" "\<not> doc_write_fails (emit VaultRead (entered w))"
    using assms(2) by (simp_all add: emit_def entered_frame)
  note g1 = generate_effects [OF q1 qq(1) wf(1)] and g2 = generate_effects [OF q2 qq(2) wf(2)]
  have fr: "vault_set_fails (emit VaultRead (entered w)) = vault_set_fails w"
    "master_file (emit VaultRead (entered w)) = master_file w"
    "keystore_file (emit VaultRead (entered w)) = keystore_file w"
    by (simp_all add: emit_def entered_frame)
  consider
      (hit) s where "getMasterKey w = (Return (from_hex s), emit VaultRead (entered w))"
    | (gen_after_read)
        "getMasterKey w = getMasterKey_generate True (loaded w) (emit VaultRead (entered w))"
    | (gen)
        "getMasterKey w =
           getMasterKey_generate (keytar w \<or> keytar_installed w) (loaded w) (entered w)"
    using assms(1) unf
    by (cases "vault w") (auto simp add: completes_def split: if_splits)
  then show ?thesis
  proof cases
    case hit
    then show ?thesis
      by (simp add: vault_written_def doc_written_def key_file_written_def read_hit_effects fr)
  next
    case gen_after_read
    then show ?thesis
      by (auto simp add: g2 fr persisted_flag_def json_stringify_def)
  next
    case gen
    then show ?thesis
      by (auto simp add: g1 entered_frame persisted_flag_def json_stringify_def)
  qed
qed

text \<open>
  Claim C4 (the persisted flag follows every successful key write), on a machine with
  keytar, a working vault, a key file from an earlier run and a document that cannot be
  written: \<^verbatim>\<open>getMasterKey\<close> completes, the vault was written with the new key, the document
  was not written and its flag is still \<open>false\<close>, and the key returned is the old one of the
  key file.
\<close>

theorem vault_written_but_flag_not_persisted:
  "completes (getMasterKey readonly_document_world)
   \<and> vault_written readonly_document_world (snd (getMasterKey readonly_document_world))
   \<and> vault (snd (getMasterKey readonly_document_world)) = Some (to_hex (map of_nat [0..<32]))
   \<and> \<not> doc_written readonly_document_world (snd (getMasterKey readonly_document_world))
   \<and> persisted_flag (snd (getMasterKey readonly_document_world)) = Some False
   \<and> fst (getMasterKey readonly_document_world) = Return (replicate 32 7)"
  by (simp add: ops obs readonly_document_world_def blank_world_def empty_document_def
      from_hex_to_hex)

subsection \<open>A document that is not JSON\<close>

text \<open>
  Claim C8. When \<^verbatim>\<open>keystore.json\<close> exists and is not valid JSON, each of
  \<^verbatim>\<open>storeSecret\<close>, \<^verbatim>\<open>getSecret\<close>, \<^verbatim>\<open>deleteSecret\<close>, \<^verbatim>\<open>hasSecret\<close>,
  \<^verbatim>\<open>listSecretKeys\<close> and \<^verbatim>\<open>getKeystoreInfo\<close> throws the parse error to its caller, and
  the file is left as it was: nothing is repaired and no empty document is put in its place.
\<close>

theorem malformed_document_is_fatal:
  assumes "keystore_file w = Some (Malformed raw)"
  shows "fst (storeSecret g key val w) = Throw SyntaxError
    \<and> fst (getSecret g key w) = Throw SyntaxError
    \<and> fst (deleteSecret key w) = Throw SyntaxError
    \<and> fst (hasSecret key w) = Throw SyntaxError
    \<and> fst (listSecretKeys w) = Throw SyntaxError
    \<and> fst (getKeystoreInfo w) = Throw SyntaxError
    \<and> keystore_file (snd (storeSecret g key val w)) = Some (Malformed raw)
    \<and> keystore_file (snd (getSecret g key w)) = Some (Malformed raw)
    \<and> keystore_file (snd (deleteSecret key w)) = Some (Malformed raw)
    \<and> keystore_file (snd (hasSecret key w)) = Some (Malformed raw)
    \<and> keystore_file (snd (listSecretKeys w)) = Some (Malformed raw)
    \<and> keystore_file (snd (getKeystoreInfo w)) = Some (Malformed raw)"
  using assms by (simp add: ops split: prod.splits)

theorem malformed_document_is_fatal_witness:
  "keystore_file corrupt_world = Some (Malformed ''{oops'')
   \<and> fst (storeSecret sample_aead ''proj:openai'' ''sk-test-123'' corrupt_world) = Throw SyntaxError
   \<and> fst (getSecret sample_aead ''proj:openai'' corrupt_world) = Throw SyntaxError
   \<and> fst (deleteSecret ''proj:openai'' corrupt_world) = Throw SyntaxError
   \<and> fst (hasSecret ''proj:openai'' corrupt_world) = Throw SyntaxError
   \<and> fst (listSecretKeys corrupt_world) = Throw SyntaxError
   \<and> fst (getKeystoreInfo corrupt_world) = Throw SyntaxError"
proof -
  have h: "keystore_file corrupt_world = Some (Malformed ''{oops'')"
    by (simp add: corrupt_world_def)
  show ?thesis
    using h malformed_document_is_fatal [OF h, of sample_aead "''proj:openai''" "''sk-test-123''"]
    by simp
qed

subsection \<open>The health check\<close>

text \<open>
  Claim C5, as stated: \<^verbatim>\<open>getKeystoreInfo\<close> has no side effect and leaves the keystore
  directory unchanged. On a machine without the directory it creates the directory.
\<close>

theorem getKeystoreInfo_creates_directory:
  "\<not> dir_exists blank_world \<and> dir_exists (snd (getKeystoreInfo blank_world))
   \<and> new_events blank_world (snd (getKeystoreInfo blank_world)) = [Mkdir]"
  by (simp add: ops obs blank_world_def)

text \<open>
  Claim C5, amended. When the document is absent or parses, \<^verbatim>\<open>getKeystoreInfo\<close> returns
  the path of the document and the persisted flag (false when there is no document). It
  leaves the document, the key file and the vault as they were; its only effect is that the
  keystore directory is created when it does not exist.
\<close>

theorem getKeystoreInfo_reads_only:
  assumes "\<forall>raw. keystore_file w \<noteq> Some (Malformed raw)"
  shows "fst (getKeystoreInfo w) =
           Return \<lparr>path = KEYSTORE_FILE w, usingKeychain = (persisted_flag w = Some True)\<rparr>
    \<and> snd (getKeystoreInfo w) = (if dir_exists w then w else emit Mkdir (w\<lparr>dir_exists := True\<rparr>))
    \<and> keystore_file (snd (getKeystoreInfo w)) = keystore_file w
    \<and> master_file (snd (getKeystoreInfo w)) = master_file w
    \<and> vault (snd (getKeystoreInfo w)) = vault w
    \<and> new_events w (snd (getKeystoreInfo w)) = (if dir_exists w then [] else [Mkdir])"
proof (cases "keystore_file w")
  case None
  then show ?thesis
    by (simp add: getKeystoreInfo_def loadKeystoreData_def ensureKeystoreDir_def emit_def
        KEYSTORE_FILE_def KEYSTORE_DIR_def persisted_flag_def new_events_def empty_document_def)
next
  case (Some c)
  with assms obtain d where "keystore_file w = Some (Document d)" by (cases c) auto
  then show ?thesis
    by (simp add: getKeystoreInfo_def loadKeystoreData_def ensureKeystoreDir_def emit_def
        KEYSTORE_FILE_def KEYSTORE_DIR_def persisted_flag_def new_events_def)
qed

theorem getKeystoreInfo_reads_only_witness:
  "fst (getKeystoreInfo keychain_world) =
     Return \<lparr>path = ''/home/dev/.pal/keystore.json'', usingKeychain = False\<rparr>
   \<and> new_events keychain_world (snd (getKeystoreInfo keychain_world)) = [Mkdir]
   \<and> keystore_file (snd (getKeystoreInfo keychain_world)) = None
   \<and> master_file (snd (getKeystoreInfo keychain_world)) = None
   \<and> vault (snd (getKeystoreInfo keychain_world)) = None"
proof -
  have h: "\<forall>raw. keystore_file keychain_world \<noteq> Some (Malformed raw)"
    by (simp add: keychain_world_def blank_world_def)
  have c: "KEYSTORE_FILE keychain_world = ''/home/dev/.pal/keystore.json''"
    "persisted_flag keychain_world = None" "\<not> dir_exists keychain_world"
    "keystore_file keychain_world = None" "master_file keychain_world = None"
    "vault keychain_world = None"
    by (simp_all add: keychain_world_def blank_world_def persisted_flag_def KEYSTORE_FILE_def
        KEYSTORE_DIR_def posix_join_def)
  show ?thesis
    using getKeystoreInfo_reads_only [OF h] by (simp add: c emit_def new_events_def)
qed

subsection \<open>Identifiers that name a property of \<^verbatim>\<open>Object.prototype\<close>\<close>

text \<open>
  Claim C1 (round trip), at the identifier \<^verbatim>\<open>__proto__\<close> on a first run: \<^verbatim>\<open>storeSecret\<close>
  completes, and the \<^verbatim>\<open>getSecret\<close> that follows returns \<^verbatim>\<open>null\<close>, whatever the cipher
  and the plaintext.
\<close>

theorem proto_secret_is_not_retrievable:
  "fst (storeSecret g ''__proto__'' p blank_world) = Return ()
   \<and> fst (getSecret g ''__proto__'' (snd (storeSecret g ''__proto__'' p blank_world))) = Return None"
  by (simp add: ops objs blank_world_def split: prod.splits)

text \<open>
  Claim C6 (deletion), at the identifier \<^verbatim>\<open>toString\<close> on a first run: no entry is stored,
  yet \<^verbatim>\<open>deleteSecret\<close> returns \<^verbatim>\<open>true\<close> and writes the document, which did not exist.
\<close>

theorem deleteSecret_inherited_name:
  "fst (listSecretKeys blank_world) = Return []
   \<and> keystore_file blank_world = None
   \<and> fst (deleteSecret ''toString'' blank_world) = Return True
   \<and> doc_written blank_world (snd (deleteSecret ''toString'' blank_world))
   \<and> keystore_file (snd (deleteSecret ''toString'' blank_world)) = Some (Document empty_document)"
  by (simp add: ops objs obs blank_world_def)

text \<open>
  Claim C9 (existence check), at the identifier \<^verbatim>\<open>toString\<close> on a first run: no entry is
  stored, yet \<^verbatim>\<open>hasSecret\<close> returns \<^verbatim>\<open>true\<close>.
\<close>

theorem hasSecret_inherited_name:
  "fst (listSecretKeys blank_world) = Return []
   \<and> fst (hasSecret ''toString'' blank_world) = Return True"
  by (simp add: ops objs obs blank_world_def)

lemma proto_store_on_file_keyed_world:
  assumes "\<not> keytar w" "\<not> keytar_installed w" "dir_exists w"
    "keystore_file w = Some (Document empty_document)"
    "master_file w = Some (to_hex K)" "\<not> doc_write_fails w" "length K = 32"
  shows "fst (storeSecret g ''__proto__'' p w) = Return ()"
    and "\<not> keytar (snd (storeSecret g ''__proto__'' p w))"
    and "\<not> keytar_installed (snd (storeSecret g ''__proto__'' p w))"
    and "dir_exists (snd (storeSecret g ''__proto__'' p w))"
    and "keystore_file (snd (storeSecret g ''__proto__'' p w)) = Some (Document empty_document)"
    and "master_file (snd (storeSecret g ''__proto__'' p w)) = Some (to_hex K)"
    and "\<not> doc_write_fails (snd (storeSecret g ''__proto__'' p w))"
  using assms
  by (simp_all add: ops objs from_hex_to_hex split: prod.splits)

lemma proto_read_on_file_keyed_world:
  assumes "\<not> keytar w" "\<not> keytar_installed w" "dir_exists w"
    "keystore_file w = Some (Document empty_document)"
    "master_file w = Some (to_hex K)" "\<not> doc_write_fails w" "length K = 32"
  shows "fst (listSecretKeys w) = Return [] \<and> fst (getSecret g ''__proto__'' w) = Return None"
  using assms
  by (simp add: ops objs from_hex_to_hex split: prod.splits)

text \<open>
  Claim C7 (overwrite), at the identifier \<^verbatim>\<open>__proto__\<close> on a first run: both calls of
  \<^verbatim>\<open>storeSecret\<close> complete, and afterwards \<^verbatim>\<open>listSecretKeys\<close> does not report the
  identifier and \<^verbatim>\<open>getSecret\<close> returns \<^verbatim>\<open>null\<close>.
\<close>

theorem proto_overwrite_is_not_listed:
  "fst (storeSecret g ''__proto__'' p1 blank_world) = Return ()
   \<and> fst (storeSecret g ''__proto__'' p2 (snd (storeSecret g ''__proto__'' p1 blank_world)))
       = Return ()
   \<and> fst (listSecretKeys
        (snd (storeSecret g ''__proto__'' p2 (snd (storeSecret g ''__proto__'' p1 blank_world)))))
       = Return []
   \<and> fst (getSecret g ''__proto__''
        (snd (storeSecret g ''__proto__'' p2 (snd (storeSecret g ''__proto__'' p1 blank_world)))))
       = Return None"
proof -
  let ?w1 = "snd (storeSecret g ''__proto__'' p1 blank_world)"
  let ?K = "map of_nat [0..<32] :: byte list"
  have first: "fst (storeSecret g ''__proto__'' p1 blank_world) = Return ()"
    and w1: "\<not> keytar ?w1" "\<not> keytar_installed ?w1" "dir_exists ?w1"
      "keystore_file ?w1 = Some (Document empty_document)"
      "master_file ?w1 = Some (to_hex ?K)" "\<not> doc_write_fails ?w1"
    by (simp_all add: ops objs blank_world_def split: prod.splits)
  have len: "length ?K = 32" by simp
  note second = proto_store_on_file_keyed_world [OF w1 len, of g p2]
  note after = proto_read_on_file_keyed_world [OF second(2-7) len, of g]
  from first second(1) after show ?thesis by simp
qed

text \<open>
  Claim C10 (no key acquisition for an absent identifier), at the identifier \<^verbatim>\<open>toString\<close>
  on a first run: no entry is stored and \<^verbatim>\<open>getSecret\<close> returns \<^verbatim>\<open>null\<close>, but a master
  key was generated, the key file and the document were written, and with keytar
  installed the vault was written.
\<close>

theorem getSecret_inherited_name_acquires_key:
  "fst (listSecretKeys blank_world) = Return []
   \<and> fst (getSecret g ''toString'' blank_world) = Return None
   \<and> master_file blank_world = None
   \<and> master_file (snd (getSecret g ''toString'' blank_world)) = Some (to_hex (map of_nat [0..<32]))
   \<and> key_file_written blank_world (snd (getSecret g ''toString'' blank_world))
   \<and> doc_written blank_world (snd (getSecret g ''toString'' blank_world))
   \<and> vault (snd (getSecret g ''toString'' keychain_world)) = Some (to_hex (map of_nat [0..<32]))
   \<and> vault_written keychain_world (snd (getSecret g ''toString'' keychain_world))"
  by (simp add: ops objs obs blank_world_def keychain_world_def)

subsection \<open>Vault failures\<close>

text \<open>
  Claim C2 (vault errors never reach the caller), on a machine whose document says the key
  is in the vault and whose vault rejects reads: \<^verbatim>\<open>storeSecret\<close> and \<^verbatim>\<open>getSecret\<close> throw
  the vault's error. A vault that rejects writes is absorbed, as the claim says.
\<close>

theorem vault_read_error_reaches_caller:
  "fst (storeSecret g key val locked_vault_world) = Throw VaultError
   \<and> fst (getSecret g ''proj:openai'' locked_vault_world) = Throw VaultError
   \<and> fst (storeSecret g key val (keychain_world\<lparr>vault_set_fails := True\<rparr>)) = Return ()"
  by (simp add: ops objs obs blank_world_def keychain_world_def locked_vault_world_def
      sample_entry_def from_hex_to_hex split: prod.splits)

subsection \<open>Decryption failures\<close>

text \<open>
  No error of \<^verbatim>\<open>decrypt\<close> leaves \<^verbatim>\<open>getSecret\<close>: the only errors it throws are those
  of key acquisition (parsing the document, reading the vault, writing the document), and
  an entry the cipher rejects under the acquired key is reported as \<^verbatim>\<open>null\<close>.
\<close>

lemma generate_throws:
  "fst (getMasterKey_generate kt d v) = Throw e \<Longrightarrow> e = WriteError"
  by (cases kt; cases "vault_set_fails v"; cases "master_file v"; cases "doc_write_fails v";
      cases "dir_exists v";
      simp add: getMasterKey_generate_def getMasterKey_file_def saveKeystoreData_def
        ensureKeystoreDir_def emit_def randomBytes_def setPassword_def)

lemma getMasterKey_throws:
  "fst (getMasterKey w) = Throw e \<Longrightarrow> e = SyntaxError \<or> e = VaultError \<or> e = WriteError"
proof (cases "\<exists>raw. keystore_file w = Some (Malformed raw)")
  case True
  moreover assume "fst (getMasterKey w) = Throw e"
  ultimately show ?thesis by (auto simp add: getMasterKey_malformed)
next
  case False
  then have ok: "\<And>raw. keystore_file w \<noteq> Some (Malformed raw)" by simp
  assume "fst (getMasterKey w) = Throw e"
  then show ?thesis
    by (auto simp add: getMasterKey_parsed [OF ok] split: if_splits option.splits
        dest: generate_throws)
qed

lemma getSecret_absorbs_decrypt_errors:
  "fst (getSecret g key w) = Throw e \<Longrightarrow> e = SyntaxError \<or> e = VaultError \<or> e = WriteError"
  using getMasterKey_throws [of "snd (loadKeystoreData w)" e]
  by (auto simp add: getSecret_def loadKeystoreData_def Let_def
      split: prod.splits option.splits file_content.splits if_splits outcome.splits)

lemma getSecret_rejected_entry_is_null:
  assumes "keystore_file w = Some (Document d)"
    and "map_of (secrets d) key = Some e"
    and "fst (getMasterKey (ensureKeystoreDir w)) = Return K"
    and "gcm_decrypt g K (from_hex (iv e)) (from_hex (authTag e)) (from_hex (ciphertext e)) = None"
  shows "fst (getSecret g key w) = Return None"
proof -
  have l: "loadKeystoreData w = (Return d, ensureKeystoreDir w)"
    using assms(1) by (simp add: loadKeystoreData_def ensureKeystoreDir_def emit_def)
  obtain w2 where k: "getMasterKey (ensureKeystoreDir w) = (Return K, w2)"
    using assms(3) by (cases "getMasterKey (ensureKeystoreDir w)") simp
  have "\<exists>err. decrypt g (Entry e) K = Throw err"
    using assms(4) by (simp add: decrypt_def Let_def)
  then obtain err where "decrypt g (Entry e) K = Throw err" ..
  then show ?thesis
    using assms(2) l k by (simp add: getSecret_def get_prop_def truthy_def)
qed

section \<open>The same operations at other identifiers\<close>

text \<open>
  The theorems above about \<^verbatim>\<open>__proto__\<close> and \<^verbatim>\<open>toString\<close> are about the names that a
  plain object inherits. The rest of the development shows what the operations do at every
  other identifier, for every world and every cipher that decrypts what it encrypted.
\<close>

subsection \<open>Enumeration order and text encoding\<close>

text \<open>
  Enumeration reorders the own properties and changes neither the value found under a
  name nor the set of names.
\<close>

lemma map_of_filter_fst:
  "map_of (filter (\<lambda>p. P (fst p)) xs) k = (if P k then map_of xs k else None)"
  by (induction xs) auto

lemma map_of_sort_key_fst:
  fixes xs :: "('k \<times> 'v) list" and f :: "'k \<Rightarrow> 'o::linorder"
  shows "map_of (sort_key (\<lambda>p. f (fst p)) xs) k = map_of xs k"
proof -
  have "map_of zs k = map_of (filter (\<lambda>p. f (fst p) = f k) zs) k" for zs :: "('k \<times> 'v) list"
    by (simp add: map_of_filter_fst [where P = "\<lambda>x. f x = f k"])
  then have "map_of (sort_key (\<lambda>p. f (fst p)) xs) k
      = map_of (filter (\<lambda>p. f (fst p) = f k) (sort_key (\<lambda>p. f (fst p)) xs)) k"
    by blast
  also have "\<dots> = map_of (filter (\<lambda>p. f (fst p) = f k) xs) k"
    by (simp only: sort_key_stable [of "\<lambda>p. f (fst p)" "f k" xs])
  also have "\<dots> = map_of xs k"
    by (simp add: map_of_filter_fst [where P = "\<lambda>x. f x = f k"])
  finally show ?thesis .
qed

lemma map_of_own_properties: "map_of (own_properties obj) k = map_of obj k"
  by (cases "is_array_index k")
    (simp_all add: own_properties_def map_add_def map_of_sort_key_fst
      map_of_filter_fst [where P = is_array_index]
      map_of_filter_fst [where P = "\<lambda>x. \<not> is_array_index x"] split: option.splits)

lemma set_own_properties: "set (own_properties obj) = set obj"
  by (auto simp add: own_properties_def)

lemma distinct_own_properties:
  "distinct (map fst obj) \<Longrightarrow> distinct (map fst (own_properties obj))"
  by (auto simp add: own_properties_def distinct_map inj_on_def)

lemma get_prop_own_properties: "get_prop (own_properties obj) k = get_prop obj k"
  by (simp add: get_prop_def map_of_own_properties)

lemma own_keys_own_properties: "fst ` set (own_properties obj) = fst ` set obj"
  by (simp add: set_own_properties)

lemma sample_codec_roundtrip: "sample_decode (sample_encode s) = s"
  by (induction s) (simp_all add: sample_encode_def sample_decode_def unat_of_nat)

subsection \<open>Settled key acquisition\<close>

text \<open>
  In a world that is \<open>established\<close> on a key, \<^verbatim>\<open>getMasterKey\<close> returns that key and
  changes nothing that key acquisition depends on; and a call of \<^verbatim>\<open>getMasterKey\<close> that
  completes in a world whose vault does not reject reads leaves an established world.
\<close>

lemma generate_file_fallback:
  assumes "kt \<longrightarrow> vault_set_fails w" and "master_file w = Some c"
  shows "getMasterKey_generate kt d w =
    (Return (from_hex c),
     if kt then emit VaultWriteFailed (snd (randomBytes 32 w)) else snd (randomBytes 32 w))"
  using assms
  by (cases kt)
    (simp_all add: getMasterKey_generate_def getMasterKey_file_def randomBytes_def setPassword_def
      emit_def)

lemma established_result:
  assumes "established K w"
  shows "getMasterKey w = (Return K, emit VaultRead (entered w))
    \<or> getMasterKey w =
         (Return K, emit VaultWriteFailed (snd (randomBytes 32 (emit VaultRead (entered w)))))
    \<or> getMasterKey w = (Return K, emit VaultWriteFailed (snd (randomBytes 32 (entered w))))
    \<or> getMasterKey w = (Return K, snd (randomBytes 32 (entered w)))"
proof -
  have ok: "\<And>raw. keystore_file w \<noteq> Some (Malformed raw)"
    using assms by (auto simp add: established_def)
  note unf = getMasterKey_parsed [OF ok]
  from assms consider (v) "key_in_vault K w" | (f) "\<not> key_in_vault K w" "key_in_file K w"
    by (auto simp add: established_def)
  then show ?thesis
  proof cases
    case v
    then show ?thesis
      by (auto simp add: unf key_in_vault_def split: option.splits)
  next
    case f
    then obtain c where c: "master_file w = Some c" "from_hex c = K"
      by (auto simp add: key_in_file_def split: option.splits)
    have m: "master_file (entered w) = Some c" "master_file (emit VaultRead (entered w)) = Some c"
      by (simp_all add: c entered_frame emit_def)
    show ?thesis
    proof (cases "keytar w \<or> keytar_installed w")
      case True
      with f have sf: "vault_set_fails w" by (auto simp add: key_in_file_def)
      then have s: "True \<longrightarrow> vault_set_fails (entered w)"
        "True \<longrightarrow> vault_set_fails (emit VaultRead (entered w))"
        by (simp_all add: entered_frame emit_def)
      show ?thesis
        using f True c
        by (auto simp add: unf key_in_file_def generate_file_fallback [OF s(1) m(1)]
            generate_file_fallback [OF s(2) m(2)] split: option.splits if_splits)
    next
      case False
      have s: "False \<longrightarrow> vault_set_fails (entered w)" by simp
      show ?thesis
        using False c by (simp add: unf generate_file_fallback [OF s m(1)])
    qed
  qed
qed

lemma established_view: "view w' = view w \<Longrightarrow> established K w' = established K w"
  by (simp add: view_def established_def key_in_vault_def key_in_file_def loaded_def)

lemma view_emit: "view (emit e w) = view w"
  by (simp add: view_def emit_def)

lemma view_randomBytes: "view (snd (randomBytes n w)) = view w"
  by (simp add: view_def randomBytes_def emit_def)

lemma view_entered: "dir_exists w \<Longrightarrow> view (entered w) = view w"
  by (auto simp add: view_def entered_def ensureKeystoreDir_def loadKeytar_def)

lemma established_getMasterKey:
  assumes "established K w"
  shows "fst (getMasterKey w) = Return K" and "view (snd (getMasterKey w)) = view w"
proof -
  have d: "dir_exists w" using assms by (simp add: established_def)
  show "fst (getMasterKey w) = Return K"
    using established_result [OF assms] by auto
  show "view (snd (getMasterKey w)) = view w"
    using established_result [OF assms]
    by (auto simp add: view_emit view_randomBytes view_entered [OF d])
qed

lemma view_save:
  "view (saved d w) =
     (True, Some (json_stringify d), master_file w, keytar w \<or> keytar_installed w, vault w,
      vault_get_fails w, vault_set_fails w, doc_write_fails w)"
  by (simp add: view_def saveKeystoreData_def saved_def ensureKeystoreDir_def emit_def)

lemma generate_vault:
  assumes "kt" and "\<not> vault_set_fails w" and "\<not> doc_write_fails w"
  shows "getMasterKey_generate kt d w =
    (Return (fst (randomBytes 32 w)),
     saved (d\<lparr>masterKeyInKeychain := True\<rparr>)
       (emit (VaultWrite (to_hex (fst (randomBytes 32 w))))
          ((snd (randomBytes 32 w))\<lparr>vault := Some (to_hex (fst (randomBytes 32 w)))\<rparr>)))"
  using assms
  by (simp add: getMasterKey_generate_def randomBytes_def setPassword_def emit_def
      saveKeystoreData_def saved_def ensureKeystoreDir_def)

lemma generate_file_new:
  assumes "kt \<longrightarrow> vault_set_fails w" and "master_file w = None" and "\<not> doc_write_fails w"
  shows "getMasterKey_generate kt d w =
    (Return (fst (randomBytes 32 w)),
     saved (d\<lparr>masterKeyInKeychain := False\<rparr>)
       (emit (KeyFileWrite (to_hex (fst (randomBytes 32 w))))
          ((if kt then emit VaultWriteFailed (snd (randomBytes 32 w)) else snd (randomBytes 32 w))
             \<lparr>master_file := Some (to_hex (fst (randomBytes 32 w)))\<rparr>)))"
  using assms
  by (cases kt)
    (simp_all add: getMasterKey_generate_def getMasterKey_file_def randomBytes_def setPassword_def
      emit_def saveKeystoreData_def saved_def ensureKeystoreDir_def)

lemma length_randomBytes: "length (fst (randomBytes n w)) = n"
  by (simp add: randomBytes_def)

lemma establishedI_vault:
  assumes "dir_exists w" "keystore_file w = Some (Document d)" "masterKeyInKeychain d"
    "keytar w \<or> keytar_installed w" "\<not> vault_get_fails w"
    "vault w = Some s" "s \<noteq> []" "from_hex s = K"
  shows "established K w"
  using assms by (simp add: established_def key_in_vault_def loaded_def)

lemma establishedI_file:
  assumes "dir_exists w" "keystore_file w = Some (Document d)" "\<not> masterKeyInKeychain d"
    "keytar w \<or> keytar_installed w \<longrightarrow> vault_set_fails w"
    "master_file w = Some c" "from_hex c = K"
  shows "established K w"
  using assms by (simp add: established_def key_in_file_def loaded_def)

lemma generate_establishes:
  assumes "fst (getMasterKey_generate kt d w) = Return K"
    and "\<not> vault_get_fails w"
    and "kt = (keytar w \<or> keytar_installed w)"
    and "kt \<and> masterKeyInKeychain d \<longrightarrow> vault w = None \<or> vault w = Some []"
    and "d = loaded w" and "dir_exists w"
    and "\<And>raw. keystore_file w \<noteq> Some (Malformed raw)"
    and "\<not> doc_write_fails w"
  shows "established K (snd (getMasterKey_generate kt d w))"
proof -
  let ?W = "snd (getMasterKey_generate kt d w)"
  let ?N = "fst (randomBytes 32 w)"
  have ne: "to_hex ?N \<noteq> []"
    using length_randomBytes [of 32 w] by (auto simp add: to_hex_eq_Nil)
  consider (a) "kt" "\<not> vault_set_fails w"
    | (b) c where "kt \<longrightarrow> vault_set_fails w" "master_file w = Some c"
    | (c) "kt \<longrightarrow> vault_set_fails w" "master_file w = None"
    by (cases "master_file w") auto
  then show ?thesis
  proof cases
    case a
    note r = generate_vault [OF a assms(8), of d]
    have K: "K = ?N" using assms(1) by (simp add: r)
    have ktw: "keytar w \<or> keytar_installed w" using a(1) assms(3) by simp
    have "dir_exists ?W"
      "keystore_file ?W = Some (Document (d\<lparr>masterKeyInKeychain := True,
         secrets := own_properties (secrets d)\<rparr>))"
      "keytar ?W \<or> keytar_installed ?W" "\<not> vault_get_fails ?W"
      "vault ?W = Some (to_hex ?N)"
      using ktw assms(2)
      by (simp_all add: r saveKeystoreData_def saved_def ensureKeystoreDir_def emit_def randomBytes_def
          json_stringify_def)
    from establishedI_vault [OF this(1,2) _ this(3,4,5) ne] show ?thesis
      by (simp add: K from_hex_to_hex)
  next
    case b
    have nm: "(case keystore_file w of Some (Malformed raw) \<Rightarrow> False | _ \<Rightarrow> True)"
      using assms(7) by (auto split: option.splits file_content.splits)
    note r = generate_file_fallback [OF b, of d]
    have K: "from_hex c = K" using assms(1) by (simp add: r)
    have v: "view ?W = view w"
      by (simp add: r view_emit view_randomBytes)
    have "established K w"
      unfolding established_def key_in_file_def
      using assms(2-6) b K nm by auto
    then show ?thesis by (simp add: established_view [OF v])
  next
    case c
    note r = generate_file_new [OF c assms(8), of d]
    have K: "K = ?N" using assms(1) by (simp add: r)
    have sf: "keytar w \<or> keytar_installed w \<longrightarrow> vault_set_fails w"
      using c(1) assms(3) by simp
    have "dir_exists ?W"
      "keystore_file ?W = Some (Document (d\<lparr>masterKeyInKeychain := False,
         secrets := own_properties (secrets d)\<rparr>))"
      "keytar ?W \<or> keytar_installed ?W \<longrightarrow> vault_set_fails ?W"
      "master_file ?W = Some (to_hex ?N)"
      using sf
      by (simp_all add: r saveKeystoreData_def saved_def ensureKeystoreDir_def emit_def randomBytes_def
          json_stringify_def)
    from establishedI_file [OF this(1,2) _ this(3,4)] show ?thesis
      by (simp add: K from_hex_to_hex)
  qed
qed

lemma entered_more:
  "dir_exists (entered w)"
  "(keytar (entered w) \<or> keytar_installed (entered w)) = (keytar w \<or> keytar_installed w)"
  "loaded (entered w) = loaded w"
  by (auto simp add: entered_def ensureKeystoreDir_def loadKeytar_def emit_def loaded_def)

lemma emit_fields:
  "dir_exists (emit e w) = dir_exists w"
  "keystore_file (emit e w) = keystore_file w"
  "master_file (emit e w) = master_file w"
  "keytar (emit e w) = keytar w"
  "keytar_installed (emit e w) = keytar_installed w"
  "vault (emit e w) = vault w"
  "vault_get_fails (emit e w) = vault_get_fails w"
  "vault_set_fails (emit e w) = vault_set_fails w"
  "doc_write_fails (emit e w) = doc_write_fails w"
  "loaded (emit e w) = loaded w"
  by (simp_all add: emit_def loaded_def)

lemma getMasterKey_establishes:
  assumes "fst (getMasterKey w) = Return K" and "\<not> vault_get_fails w"
    and "\<not> doc_write_fails w"
  shows "established K (snd (getMasterKey w))"
proof -
  have ok: "\<And>raw. keystore_file w \<noteq> Some (Malformed raw)"
    using assms(1) by (auto simp add: getMasterKey_malformed)
  note unf = getMasterKey_parsed [OF ok]
  let ?kt = "keytar w \<or> keytar_installed w"
  let ?e = "entered w" and ?r = "emit VaultRead (entered w)"
  show ?thesis
  proof (cases "?kt \<and> masterKeyInKeychain (loaded w)")
    case True
    then obtain d where d: "keystore_file w = Some (Document d)" "masterKeyInKeychain d"
      by (auto simp add: loaded_def empty_document_def split: option.splits file_content.splits)
    show ?thesis
    proof (cases "vault w = None \<or> vault w = Some []")
      case False
      then obtain s where s: "vault w = Some s" "s \<noteq> []" by (cases "vault w") auto
      have r: "getMasterKey w = (Return (from_hex s), ?r)"
        using True assms(2) s by (auto simp add: unf)
      have "established (from_hex s) ?r"
        by (rule establishedI_vault [where d = d and s = s])
          (use True d s assms(2) in \<open>simp_all add: emit_fields entered_frame entered_more\<close>)
      then show ?thesis using assms(1) by (simp add: r)
    next
      case empty: True
      have r: "getMasterKey w = getMasterKey_generate True (loaded w) ?r"
        using True assms(2) empty by (auto simp add: unf)
      have "established K (snd (getMasterKey_generate True (loaded w) ?r))"
        by (rule generate_establishes)
          (use True assms empty ok r in
            \<open>auto simp add: emit_fields entered_frame entered_more\<close>)
      then show ?thesis by (simp add: r)
    qed
  next
    case False
    have r: "getMasterKey w = getMasterKey_generate ?kt (loaded w) ?e"
      using False by (auto simp add: unf)
    have "established K (snd (getMasterKey_generate ?kt (loaded w) ?e))"
      by (rule generate_establishes)
        (use False assms ok r in \<open>auto simp add: entered_frame entered_more\<close>)
    then show ?thesis by (simp add: r)
  qed
qed

subsection \<open>Existence, absence and deletion\<close>

text \<open>
  At a name that \<^verbatim>\<open>Object.prototype\<close> does not have, \<^verbatim>\<open>hasSecret\<close> says whether an
  entry is stored, \<^verbatim>\<open>getSecret\<close> of a name without an entry returns \<^verbatim>\<open>null\<close> and only
  creates the directory, and \<^verbatim>\<open>deleteSecret\<close> removes the entry and writes the document,
  or returns \<^verbatim>\<open>false\<close> and writes nothing.
\<close>

lemma loadKeystoreData_parsed:
  assumes "\<And>raw. keystore_file w \<noteq> Some (Malformed raw)"
  shows "loadKeystoreData w = (Return (loaded w), ensureKeystoreDir w)"
proof (cases "keystore_file w")
  case None
  then show ?thesis
    by (simp add: loadKeystoreData_def loaded_def ensureKeystoreDir_def emit_def)
next
  case (Some c)
  with assms obtain d where "keystore_file w = Some (Document d)" by (cases c) auto
  then show ?thesis
    by (simp add: loadKeystoreData_def loaded_def ensureKeystoreDir_def emit_def)
qed

lemma get_prop_ordinary:
  assumes "key \<notin> set object_prototype_names"
  shows "truthy (get_prop obj key) = (key \<in> fst ` set obj)"
proof (cases "map_of obj key")
  case None
  moreover from None have "key \<notin> fst ` set obj" by (simp add: map_of_eq_None_iff)
  ultimately show ?thesis using assms by (simp add: get_prop_def truthy_def)
next
  case (Some e)
  moreover from Some have "key \<in> fst ` set obj" by (metis map_of_eq_None_iff option.distinct(1))
  ultimately show ?thesis by (simp add: get_prop_def truthy_def)
qed

lemma hasSecret_ordinary:
  assumes "\<And>raw. keystore_file w \<noteq> Some (Malformed raw)"
    and "key \<notin> set object_prototype_names"
  shows "hasSecret key w = (Return (key \<in> fst ` set (secrets (loaded w))), ensureKeystoreDir w)"
  using assms(2) by (simp add: hasSecret_def loadKeystoreData_parsed [OF assms(1)] has_prop_def)

lemma hasSecret_frame: "snd (hasSecret key w) = ensureKeystoreDir w"
  by (simp add: hasSecret_def loadKeystoreData_def Let_def
      split: option.splits file_content.splits)

lemma getSecret_absent_ordinary:
  assumes "\<And>raw. keystore_file w \<noteq> Some (Malformed raw)"
    and "key \<notin> set object_prototype_names"
    and "key \<notin> fst ` set (secrets (loaded w))"
  shows "getSecret g key w = (Return None, ensureKeystoreDir w)"
  using assms(3) get_prop_ordinary [OF assms(2), of "secrets (loaded w)"]
  by (simp add: getSecret_def loadKeystoreData_parsed [OF assms(1)])

lemma deleteSecret_ordinary:
  assumes "\<And>raw. keystore_file w \<noteq> Some (Malformed raw)"
    and "key \<notin> set object_prototype_names"
    and "\<not> doc_write_fails w"
  shows "deleteSecret key w =
    (if key \<in> fst ` set (secrets (loaded w))
     then (Return True,
           saved ((loaded w)\<lparr>secrets := AList.delete key (secrets (loaded w))\<rparr>)
             (ensureKeystoreDir w))
     else (Return False, ensureKeystoreDir w))"
  using get_prop_ordinary [OF assms(2), of "secrets (loaded w)"] assms(3)
  by (simp add: deleteSecret_def loadKeystoreData_parsed [OF assms(1)] delete_prop_def
      saveKeystoreData_def saved_def ensureKeystoreDir_def emit_def)

lemma loaded_save: "loaded (saved d w) = d\<lparr>secrets := own_properties (secrets d)\<rparr>"
  by (simp add: loaded_def saveKeystoreData_def saved_def emit_def json_stringify_def Let_def)

lemma deleteSecret_removes:
  assumes "\<And>raw. keystore_file w \<noteq> Some (Malformed raw)"
    and "key \<notin> set object_prototype_names"
    and "key \<in> fst ` set (secrets (loaded w))"
    and "\<not> doc_write_fails w"
  shows "fst (deleteSecret key w) = Return True"
    and "map_of (secrets (loaded (snd (deleteSecret key w)))) =
           (map_of (secrets (loaded w)))(key := None)"
    and "doc_written w (snd (deleteSecret key w))"
proof -
  note r = deleteSecret_ordinary [OF assms(1,2,4)]
  show "fst (deleteSecret key w) = Return True"
    using assms(3) by (simp add: r)
  show "map_of (secrets (loaded (snd (deleteSecret key w)))) =
           (map_of (secrets (loaded w)))(key := None)"
    using assms(3) by (auto simp add: r loaded_save map_of_own_properties AList.delete_conv')
  show "doc_written w (snd (deleteSecret key w))"
    using assms(3)
    by (simp add: r doc_written_def new_events_def saveKeystoreData_def saved_def ensureKeystoreDir_def
        emit_def)
qed

subsection \<open>Storing and reading back\<close>

text \<open>
  Round trip and overwrite at every identifier but \<^verbatim>\<open>__proto__\<close>: when key acquisition
  yields a 32-byte key and the vault does not reject reads, \<^verbatim>\<open>storeSecret\<close> completes
  and \<^verbatim>\<open>getSecret\<close> returns the plaintext stored last; the identifier is listed once and
  the entries under other identifiers are the ones that were there.
\<close>

lemma encrypt_sealed:
  "length k = 32 \<Longrightarrow>
     encrypt g p k w = (Return (sealed_entry g k (fst (randomBytes 12 w)) p), snd (randomBytes 12 w))"
  by (simp add: encrypt_def sealed_entry_def randomBytes_def split: prod.splits)

lemma decrypt_sealed:
  assumes "aead_correct g" "length k = 32" "nonce \<noteq> []"
    and "utf8_decode g (utf8_encode g p) = p"
  shows "decrypt g (Entry (sealed_entry g k nonce p)) k = Return p"
  using assms
  by (simp add: decrypt_def sealed_entry_def from_hex_to_hex aead_correct_def)

lemma established_fields:
  assumes "established K w"
  shows "dir_exists w" and "\<And>raw. keystore_file w \<noteq> Some (Malformed raw)"
  using assms by (auto simp add: established_def)

lemma ensureKeystoreDir_id: "dir_exists w \<Longrightarrow> ensureKeystoreDir w = w"
  by (simp add: ensureKeystoreDir_def)

lemma established_save:
  assumes "established K w" and "view w' = view w"
    and "masterKeyInKeychain d = masterKeyInKeychain (loaded w)"
  shows "established K (saved d w')"
proof -
  have f: "dir_exists w' = dir_exists w" "master_file w' = master_file w"
    "(keytar w' \<or> keytar_installed w') = (keytar w \<or> keytar_installed w)"
    "vault w' = vault w" "vault_get_fails w' = vault_get_fails w"
    "vault_set_fails w' = vault_set_fails w"
    using assms(2) by (simp_all add: view_def)
  have s: "dir_exists (saved d w')"
    "keystore_file (saved d w') = Some (json_stringify d)"
    "master_file (saved d w') = master_file w"
    "(keytar (saved d w') \<or> keytar_installed (saved d w'))
       = (keytar w \<or> keytar_installed w)"
    "vault (saved d w') = vault w"
    "vault_get_fails (saved d w') = vault_get_fails w"
    "vault_set_fails (saved d w') = vault_set_fails w"
    using f by (simp_all add: saveKeystoreData_def saved_def ensureKeystoreDir_def emit_def Let_def)
  have l: "masterKeyInKeychain (loaded (saved d w')) = masterKeyInKeychain (loaded w)"
    using assms(3) by (simp add: loaded_save)
  have kv: "key_in_vault K (saved d w') = key_in_vault K w"
    by (simp only: key_in_vault_def s l)
  have kf: "key_in_file K (saved d w') = key_in_file K w"
    by (simp only: key_in_file_def s l)
  show ?thesis
    using assms(1) s(1) by (simp add: established_def kv kf s(2) json_stringify_def)
qed

lemma generate_env:
  "vault_get_fails (snd (getMasterKey_generate kt d w)) = vault_get_fails w"
  "doc_write_fails (snd (getMasterKey_generate kt d w)) = doc_write_fails w"
  by (cases kt; cases "vault_set_fails w"; cases "master_file w"; cases "dir_exists w";
      cases "doc_write_fails w";
      simp add: getMasterKey_generate_def getMasterKey_file_def saveKeystoreData_def
        ensureKeystoreDir_def emit_def randomBytes_def setPassword_def)+

lemma getMasterKey_env:
  "vault_get_fails (snd (getMasterKey w)) = vault_get_fails w"
  "doc_write_fails (snd (getMasterKey w)) = doc_write_fails w"
proof -
  show "vault_get_fails (snd (getMasterKey w)) = vault_get_fails w"
  proof (cases "\<exists>raw. keystore_file w = Some (Malformed raw)")
    case True
    then show ?thesis by (auto simp add: getMasterKey_malformed entered_frame)
  next
    case False
    then have ok: "\<And>raw. keystore_file w \<noteq> Some (Malformed raw)" by simp
    show ?thesis
      by (simp add: getMasterKey_parsed [OF ok] generate_env emit_fields entered_frame
          split: option.splits)
  qed
  show "doc_write_fails (snd (getMasterKey w)) = doc_write_fails w"
  proof (cases "\<exists>raw. keystore_file w = Some (Malformed raw)")
    case True
    then show ?thesis by (auto simp add: getMasterKey_malformed entered_frame)
  next
    case False
    then have ok: "\<And>raw. keystore_file w \<noteq> Some (Malformed raw)" by simp
    show ?thesis
      by (simp add: getMasterKey_parsed [OF ok] generate_env emit_fields entered_frame
          split: option.splits)
  qed
qed

lemma storeSecret_after_key:
  assumes "getMasterKey w = (Return K, w1)" and "established K w1" and "length K = 32"
    and "\<not> doc_write_fails w1"
  shows "storeSecret g key p w =
    (Return (),
     saved
       ((loaded w1)\<lparr>secrets := set_prop (secrets (loaded w1)) key
          (sealed_entry g K (fst (randomBytes 12 w1)) p)\<rparr>)
       (snd (randomBytes 12 w1)))"
proof -
  have l: "loadKeystoreData w1 = (Return (loaded w1), w1)"
    using loadKeystoreData_parsed [OF established_fields(2) [OF assms(2)]]
      ensureKeystoreDir_id [OF established_fields(1) [OF assms(2)]] by simp
  have d: "dir_exists w1" by (rule established_fields(1) [OF assms(2)])
  show ?thesis
    using assms(4) d
    by (simp add: storeSecret_def assms(1) l encrypt_sealed [OF assms(3)] saveKeystoreData_def
        saved_def ensureKeystoreDir_def randomBytes_def emit_def)
qed

lemma storeSecret_established:
  assumes "established K w" and "length K = 32" and "\<not> doc_write_fails w"
  shows "storeSecret g key p w =
    (Return (),
     saved
       ((loaded (snd (getMasterKey w)))
          \<lparr>secrets := set_prop (secrets (loaded (snd (getMasterKey w)))) key
             (sealed_entry g K (fst (randomBytes 12 (snd (getMasterKey w)))) p)\<rparr>)
       (snd (randomBytes 12 (snd (getMasterKey w)))))"
proof -
  note k = established_getMasterKey [OF assms(1)]
  obtain w1 where g: "getMasterKey w = (Return K, w1)"
    using k(1) by (cases "getMasterKey w") simp
  then have w1: "snd (getMasterKey w) = w1" by simp
  have v: "view w1 = view w" using k(2) by (simp add: w1)
  from established_view [OF this, of K] assms(1) have e1: "established K w1" by simp
  have wf: "\<not> doc_write_fails w1" using v assms(3) by (simp add: view_def)
  show ?thesis
    unfolding w1 by (rule storeSecret_after_key [OF g e1 assms(2) wf])
qed

lemma getSecret_established:
  assumes "established K w" and "map_of (secrets (loaded w)) key = Some e"
  shows "fst (getSecret g key w) =
    (case decrypt g (Entry e) K of Return p \<Rightarrow> Return (Some p) | Throw err \<Rightarrow> Return None)"
proof -
  note k = established_getMasterKey [OF assms(1)]
  obtain w1 where g: "getMasterKey w = (Return K, w1)"
    using k(1) by (cases "getMasterKey w") simp
  have l: "loadKeystoreData w = (Return (loaded w), w)"
    using loadKeystoreData_parsed [OF established_fields(2) [OF assms(1)]]
      ensureKeystoreDir_id [OF established_fields(1) [OF assms(1)]] by simp
  show ?thesis
    using assms(2)
    by (simp add: getSecret_def l g get_prop_def truthy_def split: outcome.splits)
qed

lemma set_prop_lookup:
  "key \<noteq> ''__proto__'' \<Longrightarrow>
     map_of (set_prop obj key e) k = (if k = key then Some e else map_of obj k)"
  by (simp add: set_prop_def AList.update_conv')

lemma store_then_read:
  assumes "aead_correct g" and "established K w" and "length K = 32"
    and "key \<noteq> ''__proto__''" and "\<not> doc_write_fails w"
    and "utf8_decode g (utf8_encode g p) = p"
  shows "fst (storeSecret g key p w) = Return ()"
    and "established K (snd (storeSecret g key p w))"
    and "fst (getSecret g key (snd (storeSecret g key p w))) = Return (Some p)"
    and "map_of (secrets (loaded (snd (storeSecret g key p w)))) k =
          (if k = key
           then Some (sealed_entry g K (fst (randomBytes 12 (snd (getMasterKey w)))) p)
           else map_of (secrets (loaded (snd (getMasterKey w)))) k)"
proof -
  let ?w1 = "snd (getMasterKey w)"
  let ?n = "fst (randomBytes 12 ?w1)"
  let ?e = "sealed_entry g K ?n p"
  let ?d = "(loaded ?w1)\<lparr>secrets := set_prop (secrets (loaded ?w1)) key ?e\<rparr>"
  let ?w' = "saved ?d (snd (randomBytes 12 ?w1))"
  note r = storeSecret_established [OF assms(2,3,5), of g key p]
  note k = established_getMasterKey [OF assms(2)]
  from established_view [OF k(2), of K] assms(2) have e1: "established K ?w1" by simp
  have e': "established K ?w'"
    by (rule established_save [OF e1]) (simp_all add: view_randomBytes)
  have n: "?n \<noteq> []" using length_randomBytes [of 12 ?w1] by auto
  have m: "map_of (secrets (loaded ?w')) k =
      (if k = key then Some ?e else map_of (secrets (loaded ?w1)) k)" for k
    by (simp add: loaded_save map_of_own_properties set_prop_lookup [OF assms(4)])
  show "fst (storeSecret g key p w) = Return ()" by (simp add: r)
  show "established K (snd (storeSecret g key p w))" using e' by (simp add: r)
  show "fst (getSecret g key (snd (storeSecret g key p w))) = Return (Some p)"
    using getSecret_established [OF e', of key ?e g] m [of key]
    by (simp add: r decrypt_sealed [OF assms(1,3) n assms(6)])
  show "map_of (secrets (loaded (snd (storeSecret g key p w)))) k =
          (if k = key then Some ?e else map_of (secrets (loaded ?w1)) k)"
    using m [of k] by (simp add: r)
qed

lemma round_trip_ordinary:
  assumes "aead_correct g" and "fst (getMasterKey w) = Return K" and "length K = 32"
    and "\<not> vault_get_fails w" and "key \<noteq> ''__proto__''"
    and "\<not> doc_write_fails w" and "utf8_decode g (utf8_encode g p) = p"
  shows "fst (storeSecret g key p w) = Return ()
    \<and> fst (getSecret g key (snd (storeSecret g key p w))) = Return (Some p)"
proof -
  obtain w1 where g: "getMasterKey w = (Return K, w1)"
    using assms(2) by (cases "getMasterKey w") simp
  have e1: "established K w1"
    using getMasterKey_establishes [OF assms(2,4,6)] by (simp add: g)
  have wf: "\<not> doc_write_fails w1"
    using getMasterKey_env(2) [of w] assms(6) by (simp add: g)
  let ?e = "sealed_entry g K (fst (randomBytes 12 w1)) p"
  let ?d = "(loaded w1)\<lparr>secrets := set_prop (secrets (loaded w1)) key ?e\<rparr>"
  let ?w' = "saved ?d (snd (randomBytes 12 w1))"
  note r = storeSecret_after_key [OF g e1 assms(3) wf, of g key p]
  have e': "established K ?w'"
    by (rule established_save [OF e1]) (simp_all add: view_randomBytes)
  have n: "fst (randomBytes 12 w1) \<noteq> []" using length_randomBytes [of 12 w1] by auto
  have m: "map_of (secrets (loaded ?w')) key = Some ?e"
    by (simp add: loaded_save map_of_own_properties set_prop_lookup [OF assms(5)])
  show ?thesis
    using getSecret_established [OF e' m, of g]
    by (simp add: r decrypt_sealed [OF assms(1,3) n assms(7)])
qed

lemma sample_aead_correct: "aead_correct sample_aead"
  by (simp add: aead_correct_def sample_aead_def comp_def xor.assoc)

lemma generate_document:
  "loaded (snd (getMasterKey_generate kt d w)) = loaded w
   \<or> (\<exists>b. loaded (snd (getMasterKey_generate kt d w)) =
          d\<lparr>masterKeyInKeychain := b, secrets := own_properties (secrets d)\<rparr>)"
proof -
  have "keystore_file (snd (getMasterKey_generate kt d w)) = keystore_file w
        \<or> (\<exists>b. keystore_file (snd (getMasterKey_generate kt d w)) =
              Some (json_stringify (d\<lparr>masterKeyInKeychain := b\<rparr>)))"
    by (cases kt; cases "vault_set_fails w"; cases "master_file w"; cases "dir_exists w";
        cases "doc_write_fails w";
        auto simp add: getMasterKey_generate_def getMasterKey_file_def saveKeystoreData_def
          ensureKeystoreDir_def emit_def randomBytes_def setPassword_def)
  then show ?thesis
    by (auto simp add: loaded_def json_stringify_def)
qed

lemma getMasterKey_document:
  assumes "fst (getMasterKey w) = Return K"
  shows "loaded (snd (getMasterKey w)) = loaded w
   \<or> (\<exists>b. loaded (snd (getMasterKey w)) =
          (loaded w)\<lparr>masterKeyInKeychain := b, secrets := own_properties (secrets (loaded w))\<rparr>)"
proof -
  have ok: "\<And>raw. keystore_file w \<noteq> Some (Malformed raw)"
    using assms(1) by (auto simp add: getMasterKey_malformed)
  note unf = getMasterKey_parsed [OF ok]
  let ?r = "emit VaultRead (entered w)"
  have l: "loaded ?r = loaded w" "loaded (entered w) = loaded w"
    by (simp_all add: emit_fields entered_more)
  consider
      (hit) s where "getMasterKey w = (Return (from_hex s), ?r)"
    | (gen_after_read) "getMasterKey w = getMasterKey_generate True (loaded w) ?r"
    | (gen) "getMasterKey w =
        getMasterKey_generate (keytar w \<or> keytar_installed w) (loaded w) (entered w)"
    using assms unf by (cases "vault w") (auto split: if_splits)
  then show ?thesis
  proof cases
    case hit
    then show ?thesis by (simp add: l)
  next
    case gen_after_read
    then show ?thesis using generate_document [of True "loaded w" ?r] by (simp add: l)
  next
    case gen
    then show ?thesis
      using generate_document [of "keytar w \<or> keytar_installed w" "loaded w" "entered w"]
      by (simp add: l)
  qed
qed

lemma getMasterKey_keeps_entries:
  assumes "fst (getMasterKey w) = Return K"
  shows "map_of (secrets (loaded (snd (getMasterKey w)))) k = map_of (secrets (loaded w)) k"
    and "distinct (map fst (secrets (loaded w))) \<Longrightarrow>
           distinct (map fst (secrets (loaded (snd (getMasterKey w)))))"
  using getMasterKey_document [OF assms]
  by (auto simp add: map_of_own_properties distinct_own_properties)

lemma distinct_set_prop:
  "distinct (map fst obj) \<Longrightarrow> distinct (map fst (set_prop obj key e))"
  by (simp add: set_prop_def distinct_update)

lemma store_ordinary:
  assumes "fst (getMasterKey w) = Return K" and "length K = 32"
    and "\<not> vault_get_fails w" and "key \<noteq> ''__proto__''"
    and "\<not> doc_write_fails w"
  shows "fst (storeSecret g key p w) = Return ()"
    and "established K (snd (storeSecret g key p w))"
    and "map_of (secrets (loaded (snd (storeSecret g key p w)))) key \<noteq> None"
    and "k \<noteq> key \<Longrightarrow>
          map_of (secrets (loaded (snd (storeSecret g key p w)))) k = map_of (secrets (loaded w)) k"
    and "distinct (map fst (secrets (loaded w))) \<Longrightarrow>
          distinct (map fst (secrets (loaded (snd (storeSecret g key p w)))))"
    and "vault_get_fails (snd (storeSecret g key p w)) = vault_get_fails w"
    and "doc_write_fails (snd (storeSecret g key p w)) = doc_write_fails w"
proof -
  obtain w1 where g: "getMasterKey w = (Return K, w1)"
    using assms(1) by (cases "getMasterKey w") simp
  then have w1: "snd (getMasterKey w) = w1" by simp
  have e1: "established K w1"
    using getMasterKey_establishes [OF assms(1,3,5)] by (simp add: g)
  have wf: "\<not> doc_write_fails w1"
    using getMasterKey_env(2) [of w] assms(5) by (simp add: g)
  let ?e = "sealed_entry g K (fst (randomBytes 12 w1)) p"
  let ?d = "(loaded w1)\<lparr>secrets := set_prop (secrets (loaded w1)) key ?e\<rparr>"
  let ?w' = "saved ?d (snd (randomBytes 12 w1))"
  note r = storeSecret_after_key [OF g e1 assms(2) wf, of g key p]
  note keep = getMasterKey_keeps_entries [OF assms(1), unfolded w1]
  show "fst (storeSecret g key p w) = Return ()" by (simp add: r)
  show "established K (snd (storeSecret g key p w))"
    unfolding r snd_conv by (rule established_save [OF e1]) (simp_all add: view_randomBytes)
  show "map_of (secrets (loaded (snd (storeSecret g key p w)))) key \<noteq> None"
    by (simp add: r loaded_save map_of_own_properties set_prop_lookup [OF assms(4)])
  show "map_of (secrets (loaded (snd (storeSecret g key p w)))) k = map_of (secrets (loaded w)) k"
    if "k \<noteq> key"
    using that
    by (simp add: r loaded_save map_of_own_properties set_prop_lookup [OF assms(4)] keep(1))
  show "vault_get_fails (snd (storeSecret g key p w)) = vault_get_fails w"
    using getMasterKey_env(1) [of w]
    by (simp add: r w1 saveKeystoreData_def saved_def ensureKeystoreDir_def emit_def randomBytes_def)
  show "doc_write_fails (snd (storeSecret g key p w)) = doc_write_fails w"
    using getMasterKey_env(2) [of w]
    by (simp add: r w1 saveKeystoreData_def saved_def ensureKeystoreDir_def emit_def randomBytes_def)
  show "distinct (map fst (secrets (loaded (snd (storeSecret g key p w)))))"
    if "distinct (map fst (secrets (loaded w)))"
    using keep(2) [OF that]
    by (simp add: r loaded_save distinct_own_properties distinct_set_prop)
qed

lemma listSecretKeys_parsed:
  assumes "\<And>raw. keystore_file w \<noteq> Some (Malformed raw)"
  shows "listSecretKeys w = (Return (object_keys (secrets (loaded w))), ensureKeystoreDir w)"
  by (simp add: listSecretKeys_def loadKeystoreData_parsed [OF assms])

lemma count_list_distinct:
  "distinct xs \<Longrightarrow> count_list xs x = (if x \<in> set xs then 1 else 0)"
  by (induction xs) auto

lemma count_object_keys:
  assumes "distinct (map fst obj)" and "map_of obj key \<noteq> None"
  shows "count_list (object_keys obj) key = 1"
proof -
  have "key \<in> fst ` set obj" using assms(2) by (simp add: map_of_eq_None_iff)
  then have "key \<in> set (object_keys obj)"
    by (simp add: object_keys_def set_own_properties)
  moreover have "distinct (object_keys obj)"
    using assms(1) by (simp add: object_keys_def distinct_own_properties)
  ultimately show ?thesis by (simp add: count_list_distinct)
qed

lemma overwrite_ordinary:
  assumes "aead_correct g" and "fst (getMasterKey w) = Return K" and "length K = 32"
    and "\<not> vault_get_fails w" and "key \<noteq> ''__proto__''"
    and "distinct (map fst (secrets (loaded w)))"
    and "\<not> doc_write_fails w" and "utf8_decode g (utf8_encode g p2) = p2"
  shows "fst (storeSecret g key p1 w) = Return ()"
    and "fst (storeSecret g key p2 (snd (storeSecret g key p1 w))) = Return ()"
    and "fst (getSecret g key (snd (storeSecret g key p2 (snd (storeSecret g key p1 w)))))
          = Return (Some p2)"
    and "\<exists>ks. fst (listSecretKeys (snd (storeSecret g key p2 (snd (storeSecret g key p1 w)))))
            = Return ks \<and> count_list ks key = 1"
    and "k \<noteq> key \<Longrightarrow>
          map_of (secrets (loaded (snd (storeSecret g key p2 (snd (storeSecret g key p1 w)))))) k
            = map_of (secrets (loaded w)) k"
proof -
  let ?w1 = "snd (storeSecret g key p1 w)"
  let ?w2 = "snd (storeSecret g key p2 ?w1)"
  note s1 = store_ordinary [where g = g and p = p1, OF assms(2,3,4,5,7)]
  have gf: "\<not> vault_get_fails ?w1" using assms(4) by (simp add: s1(6))
  have wf: "\<not> doc_write_fails ?w1" using assms(7) by (simp add: s1(7))
  note k1 = established_getMasterKey(1) [OF s1(2)]
  note s2 = store_ordinary [where g = g and p = p2, OF k1 assms(3) gf assms(5) wf]
  note rt = round_trip_ordinary [OF assms(1) k1 assms(3) gf assms(5) wf assms(8)]
  show "fst (storeSecret g key p1 w) = Return ()" by (rule s1(1))
  show "fst (storeSecret g key p2 ?w1) = Return ()" by (rule s2(1))
  show "fst (getSecret g key ?w2) = Return (Some p2)" using rt by simp
  show "\<exists>ks. fst (listSecretKeys ?w2) = Return ks \<and> count_list ks key = 1"
    using count_object_keys [OF s2(5) [OF s1(5) [OF assms(6)]] s2(3)]
    by (simp add: listSecretKeys_parsed [OF established_fields(2) [OF s2(2)]])
  show "map_of (secrets (loaded ?w2)) k = map_of (secrets (loaded w)) k" if "k \<noteq> key"
    using s2(4) [OF that] s1(4) [OF that] by simp
qed


lemma overwrite_example:
  "fst (getSecret sample_aead ''proj:openai''
     (snd (storeSecret sample_aead ''proj:openai'' ''sk-new''
        (snd (storeSecret sample_aead ''proj:openai'' ''sk-old'' keychain_world)))))
     = Return (Some ''sk-new'')"
proof -
  have k: "fst (getMasterKey keychain_world) = Return (map of_nat [0..<32])"
    by (simp add: ops keychain_world_def blank_world_def empty_document_def)
  have l: "length (map of_nat [0..<32] :: byte list) = 32" by simp
  have f: "\<not> vault_get_fails keychain_world" by (simp add: keychain_world_def blank_world_def)
  have n: "''proj:openai'' \<noteq> ''__proto__''" by simp
  have d: "distinct (map fst (secrets (loaded keychain_world)))"
    by (simp add: loaded_def keychain_world_def blank_world_def empty_document_def)
  have e: "\<not> doc_write_fails keychain_world"
    by (simp add: keychain_world_def blank_world_def)
  have c: "utf8_decode sample_aead (utf8_encode sample_aead ''sk-new'') = ''sk-new''"
    by (simp add: sample_aead_def sample_codec_roundtrip)
  show ?thesis
    by (rule overwrite_ordinary(3) [OF sample_aead_correct k l f n d e c])
qed

subsection \<open>Entries changed on disk\<close>



















subsection \<open>Where the key is written, and which vault errors escape\<close>

text \<open>
  The vault's error leaves \<^verbatim>\<open>getMasterKey\<close> only from the read, never from the write;
  and where a call wrote a key, the place written holds the hex form of the key returned.
\<close>

lemma vault_error_only_from_read:
  assumes "fst (getMasterKey w) = Throw VaultError"
  shows "vault_get_fails w \<and> (keytar w \<or> keytar_installed w) \<and> masterKeyInKeychain (loaded w)"
proof -
  have ok: "\<And>raw. keystore_file w \<noteq> Some (Malformed raw)"
    using assms by (auto simp add: getMasterKey_malformed)
  have g: "fst (getMasterKey_generate kt d v) \<noteq> Throw VaultError" for kt d v
    using generate_throws [of kt d v VaultError] by auto
  show ?thesis
    using assms g
    by (auto simp add: getMasterKey_parsed [OF ok] split: if_splits option.splits)
qed

lemma generate_key_location:
  assumes "trace w = trace w0 @ pre" and "quiet pre"
    and "fst (getMasterKey_generate kt d w) = Return K"
    and "\<not> doc_write_fails w"
  shows "vault_written w0 (snd (getMasterKey_generate kt d w)) \<longrightarrow>
           vault (snd (getMasterKey_generate kt d w)) = Some (to_hex K)"
    and "key_file_written w0 (snd (getMasterKey_generate kt d w)) \<longrightarrow>
           master_file (snd (getMasterKey_generate kt d w)) = Some (to_hex K)"
  using assms
  by (cases kt; cases "vault_set_fails w"; cases "master_file w"; cases "dir_exists w";
      auto simp add: getMasterKey_generate_def getMasterKey_file_def saveKeystoreData_def saved_def
        ensureKeystoreDir_def emit_def randomBytes_def setPassword_def obs quiet_def)+

lemma written_key_location:
  assumes "fst (getMasterKey w) = Return K" and "\<not> doc_write_fails w"
  shows "(vault_written w (snd (getMasterKey w)) \<longrightarrow>
            vault (snd (getMasterKey w)) = Some (to_hex K))
    \<and> (key_file_written w (snd (getMasterKey w)) \<longrightarrow>
            master_file (snd (getMasterKey w)) = Some (to_hex K))"
proof -
  have ok: "\<And>raw. keystore_file w \<noteq> Some (Malformed raw)"
    using assms(1) by (auto simp add: getMasterKey_malformed)
  note unf = getMasterKey_parsed [OF ok]
  have wf: "\<not> doc_write_fails (entered w)" "\<not> doc_write_fails (emit VaultRead (entered w))"
    using assms(2) by (simp_all add: entered_frame emit_fields)
  have q1: "trace (entered w) = trace w @ (if dir_exists w then [] else [Mkdir])"
    and q2: "trace (emit VaultRead (entered w)) =
      trace w @ ((if dir_exists w then [] else [Mkdir]) @ [VaultRead])"
    by (simp_all add: entered_frame emit_def)
  have qq: "quiet (if dir_exists w then [] else [Mkdir])"
    "quiet ((if dir_exists w then [] else [Mkdir]) @ [VaultRead])"
    by (simp_all add: quiet_def)
  consider
      (hit) s where "getMasterKey w = (Return (from_hex s), emit VaultRead (entered w))"
    | (gen_after_read)
        "getMasterKey w = getMasterKey_generate True (loaded w) (emit VaultRead (entered w))"
    | (gen)
        "getMasterKey w =
           getMasterKey_generate (keytar w \<or> keytar_installed w) (loaded w) (entered w)"
    using assms(1) unf by (cases "vault w") (auto split: if_splits)
  then show ?thesis
  proof cases
    case hit
    then show ?thesis
      by (simp add: vault_written_def key_file_written_def read_hit_effects)
  next
    case gen_after_read
    with assms(1) have k: "fst (getMasterKey_generate True (loaded w) (emit VaultRead (entered w)))
      = Return K" by simp
    from generate_key_location [OF q2 qq(2) k wf(2)] gen_after_read show ?thesis by simp
  next
    case gen
    with assms(1) have k: "fst (getMasterKey_generate (keytar w \<or> keytar_installed w) (loaded w)
      (entered w)) = Return K" by simp
    from generate_key_location [OF q1 qq(1) k wf(1)] gen show ?thesis by simp
  qed
qed

end
